theory Spec2Isabelle
  imports Main "HOL-Library.Word"
begin

section \<open>JavaScript strings and values\<close>

text \<open>
  A JavaScript string is a sequence of UTF-16 code units; \<open>length\<close>, \<open>===\<close>, \<open>trim\<close> and
  \<open>substring\<close> all work on code units.  The empty string is the only falsy string.
\<close>

type_synonym jschar = "16 word"
type_synonym jsstring = "jschar list"

definition js :: "string \<Rightarrow> jsstring" where
  \<comment> \<open>an ASCII string literal of the source\<close>
  "js s = map of_char s"

definition truthy :: "jsstring \<Rightarrow> bool" where
  "truthy s = (s \<noteq> [])"

definition nullish :: "'a option \<Rightarrow> 'a \<Rightarrow> 'a" where
  \<comment> \<open>\<open>v ?? d\<close>, with \<open>None\<close> for \<open>null\<close>/\<open>undefined\<close>\<close>
  "nullish v d = (case v of None \<Rightarrow> d | Some x \<Rightarrow> x)"

definition or_undefined :: "jsstring \<Rightarrow> jsstring option" where
  \<comment> \<open>\<open>s || undefined\<close>\<close>
  "or_undefined s = (if truthy s then Some s else None)"

definition isWhiteSpace :: "jschar \<Rightarrow> bool" where
  \<comment> \<open>ECMAScript WhiteSpace and LineTerminator code points, the ones \<open>trim\<close> strips\<close>
  "isWhiteSpace c =
     (c \<in> {0x09, 0x0A, 0x0B, 0x0C, 0x0D, 0x20, 0xA0, 0x1680, 0x2028, 0x2029,
            0x202F, 0x205F, 0x3000, 0xFEFF}
      \<or> (0x2000 \<le> c \<and> c \<le> 0x200A))"

definition trim :: "jsstring \<Rightarrow> jsstring" where
  "trim s = rev (dropWhile isWhiteSpace (rev (dropWhile isWhiteSpace s)))"

definition substring :: "nat \<Rightarrow> nat \<Rightarrow> jsstring \<Rightarrow> jsstring" where
  \<comment> \<open>\<open>s.substring(a, b)\<close>: both indices are clamped to the length and swapped if needed\<close>
  "substring a b s =
     (let a' = min a (length s); b' = min b (length s);
          lo = min a' b'; hi = max a' b'
      in take (hi - lo) (drop lo s))"

definition toUpperCase :: "jsstring \<Rightarrow> jsstring" where
  \<comment> \<open>\<open>toUpperCase\<close> on ASCII text; the source applies it only to the digits that
      \<open>Number.prototype.toString(36)\<close> prints, which are \<open>0-9\<close>, \<open>a-z\<close> and \<open>.\<close>\<close>
  "toUpperCase s = map (\<lambda>c. if 0x61 \<le> c \<and> c \<le> 0x7A then c - 0x20 else c) s"

definition startsWith :: "jsstring \<Rightarrow> jsstring \<Rightarrow> bool" where
  \<comment> \<open>\<open>s.startsWith(p)\<close>\<close>
  "startsWith s p = (take (length p) s = p)"

section \<open>Master data of the Locations pages\<close>

text \<open>The fields of \<open>AdminDistrict\<close> and \<open>AdminMandal\<close> that the pages read.\<close>

record AdminDistrict =
  d_id :: jsstring
  d_name :: jsstring
  d_stateId :: jsstring

record AdminMandal =
  m_id :: jsstring
  m_name :: jsstring
  m_districtId :: jsstring

record ComboboxOption =
  opt_value :: jsstring
  opt_label :: jsstring

record GroupedComboboxGroup =
  grp_label :: jsstring
  grp_options :: "ComboboxOption list"

section \<open>LocationsVillageDialog\<close>

record LocationsVillageFormData =
  lv_stateId :: jsstring
  lv_districtId :: jsstring
  lv_mandalId :: jsstring
  lv_name :: jsstring
  lv_code :: "jsstring option"
  lv_pincode :: "jsstring option"
  lv_isActive :: bool

definition LocationsVillageDialog_filteredDistricts ::
    "AdminDistrict list \<Rightarrow> jsstring \<Rightarrow> AdminDistrict list" where
  "LocationsVillageDialog_filteredDistricts districts selectedStateId =
     (if \<not> truthy selectedStateId then []
      else filter (\<lambda>d. d_stateId d = selectedStateId) districts)"

definition LocationsVillageDialog_filteredMandals ::
    "AdminMandal list \<Rightarrow> jsstring \<Rightarrow> AdminMandal list" where
  "LocationsVillageDialog_filteredMandals mandals selectedDistrictId =
     (if \<not> truthy selectedDistrictId then []
      else filter (\<lambda>m. m_districtId m = selectedDistrictId) mandals)"

definition LocationsVillageDialog_districtGroups ::
    "AdminDistrict list \<Rightarrow> GroupedComboboxGroup list" where
  "LocationsVillageDialog_districtGroups filteredDistricts =
     [\<lparr>grp_label = js ''Districts'',
       grp_options = map (\<lambda>d. \<lparr>opt_value = d_id d, opt_label = d_name d\<rparr>) filteredDistricts\<rparr>]"

definition LocationsVillageDialog_mandalGroups ::
    "AdminMandal list \<Rightarrow> GroupedComboboxGroup list" where
  "LocationsVillageDialog_mandalGroups filteredMandals =
     [\<lparr>grp_label = js ''Mandals'',
       grp_options = map (\<lambda>m. \<lparr>opt_value = m_id m, opt_label = m_name m\<rparr>) filteredMandals\<rparr>]"

definition LocationsVillageDialog_stateId_onValueChange ::
    "jsstring \<Rightarrow> LocationsVillageFormData \<Rightarrow> LocationsVillageFormData" where
  \<comment> \<open>\<open>field.onChange(v); setValue("districtId", ""); setValue("mandalId", "")\<close>\<close>
  "LocationsVillageDialog_stateId_onValueChange v form =
     form\<lparr>lv_stateId := v, lv_districtId := [], lv_mandalId := []\<rparr>"

definition LocationsVillageDialog_districtId_onValueChange ::
    "jsstring \<Rightarrow> LocationsVillageFormData \<Rightarrow> LocationsVillageFormData" where
  \<comment> \<open>\<open>field.onChange(v); setValue("mandalId", "")\<close>\<close>
  "LocationsVillageDialog_districtId_onValueChange v form =
     form\<lparr>lv_districtId := v, lv_mandalId := []\<rparr>"

section \<open>IkpCenterDialog over preloaded collections\<close>

record IkpCenterFormData =
  ic_stateId :: jsstring
  ic_districtId :: jsstring
  ic_mandalId :: jsstring
  ic_villageId :: jsstring
  ic_name :: jsstring
  ic_notes :: "jsstring option"
  ic_isActive :: bool

definition IkpCenterDialog_filteredDistricts ::
    "AdminDistrict list \<Rightarrow> jsstring \<Rightarrow> AdminDistrict list" where
  "IkpCenterDialog_filteredDistricts districts selectedStateId =
     (if \<not> truthy selectedStateId then []
      else filter (\<lambda>d. d_stateId d = selectedStateId) districts)"

definition IkpCenterDialog_stateId_onValueChange ::
    "jsstring \<Rightarrow> IkpCenterFormData \<Rightarrow> IkpCenterFormData" where
  \<comment> \<open>\<open>field.onChange(v)\<close>, then \<open>setValue\<close> of the three descendants to \<open>""\<close>\<close>
  "IkpCenterDialog_stateId_onValueChange v form =
     form\<lparr>ic_stateId := v, ic_districtId := [], ic_mandalId := [], ic_villageId := []\<rparr>"

section \<open>IkpCentersPage: the filter bar\<close>

record IkpCentersFilters =
  flt_search :: jsstring
  flt_stateId :: jsstring
  flt_districtId :: jsstring
  flt_mandalId :: jsstring
  flt_villageId :: jsstring
  flt_includeInactive :: bool

definition IkpCentersPage_initial_filters :: IkpCentersFilters where
  "IkpCentersPage_initial_filters =
     \<lparr>flt_search = [], flt_stateId = [], flt_districtId = [], flt_mandalId = [],
      flt_villageId = [], flt_includeInactive = True\<rparr>"

definition IkpCentersPage_state_onValueChange ::
    "jsstring option \<Rightarrow> IkpCentersFilters \<Rightarrow> IkpCentersFilters" where
  "IkpCentersPage_state_onValueChange v p =
     p\<lparr>flt_stateId := nullish v [], flt_districtId := [], flt_mandalId := [],
       flt_villageId := []\<rparr>"

definition IkpCentersPage_district_onValueChange ::
    "jsstring option \<Rightarrow> IkpCentersFilters \<Rightarrow> IkpCentersFilters" where
  "IkpCentersPage_district_onValueChange v p =
     p\<lparr>flt_districtId := nullish v [], flt_mandalId := [], flt_villageId := []\<rparr>"

definition IkpCentersPage_mandal_onValueChange ::
    "jsstring option \<Rightarrow> IkpCentersFilters \<Rightarrow> IkpCentersFilters" where
  "IkpCentersPage_mandal_onValueChange v p =
     p\<lparr>flt_mandalId := nullish v [], flt_villageId := []\<rparr>"

section \<open>LocationsMandalsPage and LocationsVillagesPage: the filter bars\<close>

record LocationsMandalsFilters =
  lmp_stateFilter :: jsstring
  lmp_districtFilter :: jsstring

record LocationsVillagesFilters =
  lvp_stateFilter :: jsstring
  lvp_districtFilter :: jsstring
  lvp_mandalFilter :: jsstring

definition LocationsMandalsPage_districtFilterGroups ::
    "AdminDistrict list \<Rightarrow> jsstring \<Rightarrow> GroupedComboboxGroup list" where
  "LocationsMandalsPage_districtFilterGroups districts stateFilter =
     (let d = (if truthy stateFilter
               then filter (\<lambda>x. d_stateId x = stateFilter) districts else districts)
      in [\<lparr>grp_label = js ''Districts'',
            grp_options = map (\<lambda>x. \<lparr>opt_value = d_id x, opt_label = d_name x\<rparr>) d\<rparr>])"

definition LocationsVillagesPage_districtFilterGroups ::
    "AdminDistrict list \<Rightarrow> jsstring \<Rightarrow> GroupedComboboxGroup list" where
  "LocationsVillagesPage_districtFilterGroups districts stateFilter =
     (let d = (if truthy stateFilter
               then filter (\<lambda>x. d_stateId x = stateFilter) districts else districts)
      in [\<lparr>grp_label = js ''Districts'',
            grp_options = map (\<lambda>x. \<lparr>opt_value = d_id x, opt_label = d_name x\<rparr>) d\<rparr>])"

definition LocationsVillagesPage_mandalFilterGroups ::
    "AdminMandal list \<Rightarrow> jsstring \<Rightarrow> GroupedComboboxGroup list" where
  "LocationsVillagesPage_mandalFilterGroups mandals districtFilter =
     (let m = (if truthy districtFilter
               then filter (\<lambda>x. m_districtId x = districtFilter) mandals else mandals)
      in [\<lparr>grp_label = js ''Mandals'',
            grp_options = map (\<lambda>x. \<lparr>opt_value = m_id x, opt_label = m_name x\<rparr>) m\<rparr>])"

definition LocationsMandalsPage_stateFilter_onValueChange ::
    "jsstring \<Rightarrow> LocationsMandalsFilters \<Rightarrow> LocationsMandalsFilters" where
  \<comment> \<open>\<open>setStateFilter(v); setDistrictFilter("")\<close>\<close>
  "LocationsMandalsPage_stateFilter_onValueChange v st =
     st\<lparr>lmp_stateFilter := v, lmp_districtFilter := []\<rparr>"

definition LocationsVillagesPage_stateFilter_onValueChange ::
    "jsstring \<Rightarrow> LocationsVillagesFilters \<Rightarrow> LocationsVillagesFilters" where
  \<comment> \<open>\<open>setStateFilter(v); setDistrictFilter(""); setMandalFilter("")\<close>\<close>
  "LocationsVillagesPage_stateFilter_onValueChange v st =
     st\<lparr>lvp_stateFilter := v, lvp_districtFilter := [], lvp_mandalFilter := []\<rparr>"

definition LocationsVillagesPage_districtFilter_onValueChange ::
    "jsstring \<Rightarrow> LocationsVillagesFilters \<Rightarrow> LocationsVillagesFilters" where
  \<comment> \<open>\<open>setDistrictFilter(v); setMandalFilter("")\<close>\<close>
  "LocationsVillagesPage_districtFilter_onValueChange v st =
     st\<lparr>lvp_districtFilter := v, lvp_mandalFilter := []\<rparr>"

section \<open>Option queries of the server-filtered pages\<close>

definition js_and :: "jsstring \<Rightarrow> jsstring \<Rightarrow> jsstring" where
  \<comment> \<open>\<open>a && b\<close> on strings\<close>
  "js_and a b = (if truthy a then b else a)"

text \<open>A list request: page, limit, the parent id filter and \<open>includeInactive\<close>.\<close>

datatype IkpListCall =
    ListAdminIkpStates nat nat bool
  | ListAdminIkpDistricts nat nat "jsstring option" bool
  | ListAdminIkpMandals nat nat "jsstring option" bool
  | ListAdminIkpVillages nat nat "jsstring option" bool

record IkpQuery =
  q_enabled :: bool
  q_queryKey :: "jsstring list"
  q_queryFn :: IkpListCall

subsection \<open>IkpCentersPage\<close>

definition IkpCentersPage_districtsQuery :: "IkpCentersFilters \<Rightarrow> IkpQuery" where
  "IkpCentersPage_districtsQuery filters =
     \<lparr>q_enabled = truthy (js_and (flt_stateId filters) (trim (flt_stateId filters))),
      q_queryKey = [js ''adminIkpDistrictsForCenters'', flt_stateId filters],
      q_queryFn = ListAdminIkpDistricts 1 300 (Some (flt_stateId filters)) True\<rparr>"

definition IkpCentersPage_mandalsQuery :: "IkpCentersFilters \<Rightarrow> IkpQuery" where
  "IkpCentersPage_mandalsQuery filters =
     \<lparr>q_enabled = truthy (js_and (flt_districtId filters) (trim (flt_districtId filters))),
      q_queryKey = [js ''adminIkpMandalsForCenters'', flt_districtId filters],
      q_queryFn = ListAdminIkpMandals 1 500 (Some (flt_districtId filters)) True\<rparr>"

definition IkpCentersPage_villagesQuery :: "IkpCentersFilters \<Rightarrow> IkpQuery" where
  "IkpCentersPage_villagesQuery filters =
     \<lparr>q_enabled = truthy (js_and (flt_mandalId filters) (trim (flt_mandalId filters))),
      q_queryKey = [js ''adminIkpVillagesForCenters'', flt_mandalId filters],
      q_queryFn = ListAdminIkpVillages 1 800 (Some (flt_mandalId filters)) True\<rparr>"

text \<open>
  The dialog of \<open>IkpCentersPage\<close> has the same form fields as \<open>IkpCenterFormData\<close>; its
  queries are keyed by the watched form values.
\<close>

definition IkpCentersPage_dialog_districtsQuery :: "IkpCenterFormData \<Rightarrow> IkpQuery" where
  "IkpCentersPage_dialog_districtsQuery form =
     \<lparr>q_enabled = truthy (js_and (ic_stateId form) (trim (ic_stateId form))),
      q_queryKey = [js ''ikpCenterDistrictsDialog'', ic_stateId form],
      q_queryFn = ListAdminIkpDistricts 1 300 (Some (trim (ic_stateId form))) True\<rparr>"

definition IkpCentersPage_dialog_mandalsQuery :: "IkpCenterFormData \<Rightarrow> IkpQuery" where
  "IkpCentersPage_dialog_mandalsQuery form =
     \<lparr>q_enabled = truthy (js_and (ic_districtId form) (trim (ic_districtId form))),
      q_queryKey = [js ''ikpCenterMandalsDialog'', ic_districtId form],
      q_queryFn = ListAdminIkpMandals 1 500 (Some (trim (ic_districtId form))) True\<rparr>"

definition IkpCentersPage_dialog_villagesQuery :: "IkpCenterFormData \<Rightarrow> IkpQuery" where
  "IkpCentersPage_dialog_villagesQuery form =
     \<lparr>q_enabled = truthy (js_and (ic_mandalId form) (trim (ic_mandalId form))),
      q_queryKey = [js ''ikpCenterVillagesDialog'', ic_mandalId form],
      q_queryFn = ListAdminIkpVillages 1 800 (Some (trim (ic_mandalId form))) True\<rparr>"

subsection \<open>IkpVillagesPage\<close>

text \<open>
  Each query is gated on its parent id and on the success of the query one level up,
  which is passed in as a flag.
\<close>

definition IkpVillagesPage_districtsQuery :: "bool \<Rightarrow> jsstring \<Rightarrow> IkpQuery" where
  "IkpVillagesPage_districtsQuery statesQuery_isSuccess stateId =
     \<lparr>q_enabled = (truthy (js_and stateId (trim stateId)) \<and> statesQuery_isSuccess),
      q_queryKey = [js ''adminIkpDistrictsForVillages'', stateId],
      q_queryFn = ListAdminIkpDistricts 1 300 (or_undefined stateId) True\<rparr>"

definition IkpVillagesPage_mandalsQuery :: "bool \<Rightarrow> jsstring \<Rightarrow> IkpQuery" where
  "IkpVillagesPage_mandalsQuery districtsQuery_isSuccess districtId =
     \<lparr>q_enabled = (truthy (js_and districtId (trim districtId)) \<and> districtsQuery_isSuccess),
      q_queryKey = [js ''adminIkpMandalsForVillages'', districtId],
      q_queryFn = ListAdminIkpMandals 1 500 (or_undefined districtId) True\<rparr>"

subsection \<open>IkpMandalsPage\<close>

record AdminIkpMandal =
  ikm_id :: jsstring
  ikm_districtId :: jsstring
  ikm_name :: jsstring
  ikm_isActive :: bool

datatype ToastKind = success | error

text \<open>
  The state of the page: its \<open>useState\<close> cells, the success flag of \<open>statesQuery\<close>, the
  toasts shown so far and the query keys invalidated so far.
\<close>

record IkpMandalsPageState =
  imp_search :: jsstring
  imp_stateId :: jsstring
  imp_districtId :: jsstring
  imp_includeInactive :: bool
  imp_createOpen :: bool
  imp_editing :: "AdminIkpMandal option"
  imp_deactivateTarget :: "AdminIkpMandal option"
  imp_statesQuery_isSuccess :: bool
  imp_toasts :: "(jsstring \<times> ToastKind) list"
  imp_invalidated :: "jsstring list"

definition IkpMandalsPage_initial :: IkpMandalsPageState where
  "IkpMandalsPage_initial =
     \<lparr>imp_search = [], imp_stateId = [], imp_districtId = [], imp_includeInactive = True,
      imp_createOpen = False, imp_editing = None, imp_deactivateTarget = None,
      imp_statesQuery_isSuccess = False, imp_toasts = [], imp_invalidated = []\<rparr>"

definition IkpMandalsPage_districtsQuery :: "IkpMandalsPageState \<Rightarrow> IkpQuery" where
  "IkpMandalsPage_districtsQuery st =
     \<lparr>q_enabled = imp_statesQuery_isSuccess st,
      q_queryKey = [js ''adminIkpDistrictsForMandals'', imp_stateId st],
      q_queryFn = ListAdminIkpDistricts 1 200 (or_undefined (imp_stateId st)) True\<rparr>"

definition IkpMandalsPage_state_onValueChange ::
    "jsstring option \<Rightarrow> IkpMandalsPageState \<Rightarrow> IkpMandalsPageState" where
  \<comment> \<open>\<open>next = v ? (v === stateId ? "" : v) : ""; setStateId(next); setDistrictId("")\<close>\<close>
  "IkpMandalsPage_state_onValueChange v st =
     (let next = (case v of None \<Rightarrow> []
                  | Some s \<Rightarrow> if truthy s then (if s = imp_stateId st then [] else s) else [])
      in st\<lparr>imp_stateId := next, imp_districtId := []\<rparr>)"

definition IkpMandalsPage_district_onValueChange ::
    "jsstring option \<Rightarrow> IkpMandalsPageState \<Rightarrow> IkpMandalsPageState" where
  \<comment> \<open>\<open>setDistrictId(v ? (v === districtId ? "" : v) : "")\<close>\<close>
  "IkpMandalsPage_district_onValueChange v st =
     st\<lparr>imp_districtId :=
          (case v of None \<Rightarrow> []
           | Some s \<Rightarrow> if truthy s then (if s = imp_districtId st then [] else s) else [])\<rparr>"

datatype IkpMandalsPageEvent =
    StatesQuerySucceeded
  | StateSelected "jsstring option"
  | DistrictSelected "jsstring option"

fun IkpMandalsPage_step :: "IkpMandalsPageState \<Rightarrow> IkpMandalsPageEvent \<Rightarrow> IkpMandalsPageState" where
  "IkpMandalsPage_step st StatesQuerySucceeded = st\<lparr>imp_statesQuery_isSuccess := True\<rparr>"
| "IkpMandalsPage_step st (StateSelected v) = IkpMandalsPage_state_onValueChange v st"
| "IkpMandalsPage_step st (DistrictSelected v) = IkpMandalsPage_district_onValueChange v st"

definition IkpMandalsPage_run :: "IkpMandalsPageEvent list \<Rightarrow> IkpMandalsPageState" where
  \<comment> \<open>the state reached from the freshly mounted page by a sequence of events\<close>
  "IkpMandalsPage_run evs = foldl IkpMandalsPage_step IkpMandalsPage_initial evs"

subsection \<open>IkpMandalsPage: the mutation callbacks\<close>

text \<open>
  What a failed request throws: an \<open>Error\<close> with its message, or any other value.  A
  successful response carries an optional message.
\<close>

datatype thrown = ErrorValue jsstring | NonError

definition errorMessageOr :: "thrown \<Rightarrow> jsstring \<Rightarrow> jsstring" where
  \<comment> \<open>\<open>err instanceof Error ? err.message : fallback\<close>\<close>
  "errorMessageOr err fallback = (case err of ErrorValue m \<Rightarrow> m | NonError \<Rightarrow> fallback)"

definition IkpMandalsPage_showToast ::
    "jsstring \<Rightarrow> ToastKind \<Rightarrow> IkpMandalsPageState \<Rightarrow> IkpMandalsPageState" where
  "IkpMandalsPage_showToast msg kind st = st\<lparr>imp_toasts := imp_toasts st @ [(msg, kind)]\<rparr>"

definition IkpMandalsPage_invalidateQueries ::
    "jsstring \<Rightarrow> IkpMandalsPageState \<Rightarrow> IkpMandalsPageState" where
  "IkpMandalsPage_invalidateQueries key st = st\<lparr>imp_invalidated := imp_invalidated st @ [key]\<rparr>"

definition IkpMandalsPage_createMutation_onSuccess ::
    "jsstring option \<Rightarrow> IkpMandalsPageState \<Rightarrow> IkpMandalsPageState" where
  "IkpMandalsPage_createMutation_onSuccess res_message st =
     IkpMandalsPage_invalidateQueries (js ''adminIkpMandals'')
       ((IkpMandalsPage_showToast (nullish res_message (js ''Mandal created.'')) success st)
          \<lparr>imp_createOpen := False\<rparr>)"

definition IkpMandalsPage_createMutation_onError ::
    "thrown \<Rightarrow> IkpMandalsPageState \<Rightarrow> IkpMandalsPageState" where
  "IkpMandalsPage_createMutation_onError err st =
     IkpMandalsPage_showToast (errorMessageOr err (js ''Failed to create mandal.'')) error st"

definition IkpMandalsPage_updateMutation_onSuccess ::
    "jsstring option \<Rightarrow> IkpMandalsPageState \<Rightarrow> IkpMandalsPageState" where
  "IkpMandalsPage_updateMutation_onSuccess res_message st =
     IkpMandalsPage_invalidateQueries (js ''adminIkpMandals'')
       ((IkpMandalsPage_showToast (nullish res_message (js ''Mandal updated.'')) success st)
          \<lparr>imp_editing := None\<rparr>)"

definition IkpMandalsPage_updateMutation_onError ::
    "thrown \<Rightarrow> IkpMandalsPageState \<Rightarrow> IkpMandalsPageState" where
  "IkpMandalsPage_updateMutation_onError err st =
     IkpMandalsPage_showToast (errorMessageOr err (js ''Failed to update mandal.'')) error st"

definition IkpMandalsPage_deactivateMutation_onSuccess ::
    "jsstring option \<Rightarrow> IkpMandalsPageState \<Rightarrow> IkpMandalsPageState" where
  "IkpMandalsPage_deactivateMutation_onSuccess res_message st =
     IkpMandalsPage_invalidateQueries (js ''adminIkpMandals'')
       ((IkpMandalsPage_showToast (nullish res_message (js ''Mandal deactivated.'')) success st)
          \<lparr>imp_deactivateTarget := None\<rparr>)"

definition IkpMandalsPage_deactivateMutation_onError ::
    "thrown \<Rightarrow> IkpMandalsPageState \<Rightarrow> IkpMandalsPageState" where
  "IkpMandalsPage_deactivateMutation_onError err st =
     IkpMandalsPage_showToast (errorMessageOr err (js ''Failed to deactivate mandal.'')) error st"

text \<open>
  A mutation settles with what the request threw (\<open>Inl\<close>) or with the message of its
  response (\<open>Inr\<close>), and runs the matching callback.
\<close>

definition IkpMandalsPage_createMutation_settled ::
    "thrown + jsstring option \<Rightarrow> IkpMandalsPageState \<Rightarrow> IkpMandalsPageState" where
  "IkpMandalsPage_createMutation_settled r st =
     (case r of Inl err \<Rightarrow> IkpMandalsPage_createMutation_onError err st
      | Inr res_message \<Rightarrow> IkpMandalsPage_createMutation_onSuccess res_message st)"

definition IkpMandalsPage_updateMutation_settled ::
    "thrown + jsstring option \<Rightarrow> IkpMandalsPageState \<Rightarrow> IkpMandalsPageState" where
  "IkpMandalsPage_updateMutation_settled r st =
     (case r of Inl err \<Rightarrow> IkpMandalsPage_updateMutation_onError err st
      | Inr res_message \<Rightarrow> IkpMandalsPage_updateMutation_onSuccess res_message st)"

definition IkpMandalsPage_deactivateMutation_settled ::
    "thrown + jsstring option \<Rightarrow> IkpMandalsPageState \<Rightarrow> IkpMandalsPageState" where
  "IkpMandalsPage_deactivateMutation_settled r st =
     (case r of Inl err \<Rightarrow> IkpMandalsPage_deactivateMutation_onError err st
      | Inr res_message \<Rightarrow> IkpMandalsPage_deactivateMutation_onSuccess res_message st)"

text \<open>The \<open>open\<close> props of the three dialogs of the page.\<close>

definition IkpMandalsPage_createDialog_open :: "IkpMandalsPageState \<Rightarrow> bool" where
  "IkpMandalsPage_createDialog_open st = imp_createOpen st"

definition IkpMandalsPage_editDialog_open :: "IkpMandalsPageState \<Rightarrow> bool" where
  \<comment> \<open>\<open>Boolean(editing)\<close>\<close>
  "IkpMandalsPage_editDialog_open st = (imp_editing st \<noteq> None)"

definition IkpMandalsPage_deactivateDialog_open :: "IkpMandalsPageState \<Rightarrow> bool" where
  \<comment> \<open>\<open>Boolean(deactivateTarget)\<close>\<close>
  "IkpMandalsPage_deactivateDialog_open st = (imp_deactivateTarget st \<noteq> None)"

definition IkpMandalsPage_deactivate_onClick ::
    "IkpMandalsPageState \<Rightarrow> IkpMandalsPageState \<times> jsstring option" where
  \<comment> \<open>\<open>deactivateTarget && deactivateMutation.mutate(deactivateTarget.id)\<close>: the page state
      is left as it is, and the id of the target, if any, goes to the mutation\<close>
  "IkpMandalsPage_deactivate_onClick st = (st, map_option ikm_id (imp_deactivateTarget st))"

section \<open>Entity dialogs: validation and the submit button\<close>

definition isDirty :: "'a \<Rightarrow> 'a \<Rightarrow> bool" where
  \<comment> \<open>\<open>formState.isDirty\<close>: the current values differ from the values the form was reset to\<close>
  "isDirty defaultValues values = (values \<noteq> defaultValues)"

text \<open>
  \<open>formState.isValid\<close> is the verdict of the zod schema on the values the form held when
  validity was last computed: \<open>z.string().min(1)\<close> asks for at least one code unit,
  \<open>.max(100)\<close> for at most 100, and an \<open>optional\<close> string or a boolean is always
  accepted.  Validity is computed again by \<open>reset\<close>, by the \<open>onChange\<close> of a registered or
  controlled field and by \<open>setValue\<close> with \<open>shouldValidate: true\<close>; a plain \<open>setValue\<close>
  writes the value and leaves \<open>isValid\<close> as it was.  In a dialog whose every write is of
  the first kind, \<open>isValid\<close> is the verdict on the current values.
\<close>

subsection \<open>MandalDialog of IkpMandalsPage\<close>

record IkpMandalFormData =
  imf_districtId :: jsstring
  imf_name :: jsstring
  imf_isActive :: bool

definition IkpMandalsPage_mandalSchema :: "IkpMandalFormData \<Rightarrow> bool" where
  "IkpMandalsPage_mandalSchema v =
     (1 \<le> length (imf_districtId v) \<and> 1 \<le> length (imf_name v) \<and> length (imf_name v) \<le> 100)"

definition MandalDialog_submit_disabled :: "bool \<Rightarrow> bool \<Rightarrow> bool \<Rightarrow> bool option \<Rightarrow> bool" where
  \<comment> \<open>\<open>props.isSaving || !isValid || (props.disableDistrict ? !isDirty : false)\<close>\<close>
  "MandalDialog_submit_disabled isSaving isValid dirty disableDistrict =
     (isSaving \<or> \<not> isValid \<or> (if disableDistrict = Some True then \<not> dirty else False))"

definition MandalDialog_submit ::
    "bool \<Rightarrow> bool option \<Rightarrow> IkpMandalFormData \<Rightarrow> IkpMandalFormData \<Rightarrow> bool" where
  \<comment> \<open>the button of a dialog opened on \<open>initialValues\<close> and now holding \<open>values\<close>\<close>
  "MandalDialog_submit isSaving disableDistrict initialValues values =
     MandalDialog_submit_disabled isSaving (IkpMandalsPage_mandalSchema values)
       (isDirty initialValues values) disableDistrict"

subsection \<open>VillageDialog of IkpVillagesPage\<close>

record IkpVillageFormData =
  ivf_mandalId :: jsstring
  ivf_name :: jsstring
  ivf_isActive :: bool

definition IkpVillagesPage_villageSchema :: "IkpVillageFormData \<Rightarrow> bool" where
  "IkpVillagesPage_villageSchema v =
     (1 \<le> length (ivf_mandalId v) \<and> 1 \<le> length (ivf_name v) \<and> length (ivf_name v) \<le> 100)"

definition VillageDialog_submit_disabled :: "bool \<Rightarrow> bool \<Rightarrow> bool \<Rightarrow> bool option \<Rightarrow> bool" where
  \<comment> \<open>\<open>props.isSaving || !isValid || (props.disableMandal ? !isDirty : false)\<close>\<close>
  "VillageDialog_submit_disabled isSaving isValid dirty disableMandal =
     (isSaving \<or> \<not> isValid \<or> (if disableMandal = Some True then \<not> dirty else False))"

definition VillageDialog_submit ::
    "bool \<Rightarrow> bool option \<Rightarrow> IkpVillageFormData \<Rightarrow> IkpVillageFormData \<Rightarrow> bool" where
  "VillageDialog_submit isSaving disableMandal initialValues values =
     VillageDialog_submit_disabled isSaving (IkpVillagesPage_villageSchema values)
       (isDirty initialValues values) disableMandal"

subsection \<open>DistrictDialog of IkpDistrictsPage\<close>

record IkpDistrictFormData =
  idf_stateId :: jsstring
  idf_name :: jsstring
  idf_isActive :: bool

definition IkpDistrictsPage_districtSchema :: "IkpDistrictFormData \<Rightarrow> bool" where
  "IkpDistrictsPage_districtSchema v =
     (1 \<le> length (idf_stateId v) \<and> 1 \<le> length (idf_name v) \<and> length (idf_name v) \<le> 100)"

definition DistrictDialog_submit_disabled :: "bool \<Rightarrow> bool \<Rightarrow> bool \<Rightarrow> bool option \<Rightarrow> bool" where
  \<comment> \<open>\<open>props.isSaving || !isValid || (props.disableState ? !isDirty : false)\<close>\<close>
  "DistrictDialog_submit_disabled isSaving isValid dirty disableState =
     (isSaving \<or> \<not> isValid \<or> (if disableState = Some True then \<not> dirty else False))"

definition DistrictDialog_submit ::
    "bool \<Rightarrow> bool option \<Rightarrow> IkpDistrictFormData \<Rightarrow> IkpDistrictFormData \<Rightarrow> bool" where
  "DistrictDialog_submit isSaving disableState initialValues values =
     DistrictDialog_submit_disabled isSaving (IkpDistrictsPage_districtSchema values)
       (isDirty initialValues values) disableState"

subsection \<open>IkpCenterDialog of IkpCentersPage\<close>

definition ikpCenterSchema :: "IkpCenterFormData \<Rightarrow> bool" where
  "ikpCenterSchema v =
     (1 \<le> length (ic_stateId v) \<and> 1 \<le> length (ic_districtId v) \<and> 1 \<le> length (ic_mandalId v)
      \<and> 1 \<le> length (ic_villageId v) \<and> 1 \<le> length (ic_name v))"

definition IkpCenterDialog_submit_disabled :: "bool \<Rightarrow> bool \<Rightarrow> bool \<Rightarrow> jsstring \<Rightarrow> bool" where
  \<comment> \<open>\<open>props.isSaving || !isValid || (props.title.startsWith("Edit") ? !isDirty : false)\<close>\<close>
  "IkpCenterDialog_submit_disabled isSaving isValid dirty title =
     (isSaving \<or> \<not> isValid \<or> (if startsWith title (js ''Edit'') then \<not> dirty else False))"

definition IkpCenterDialog_submit ::
    "bool \<Rightarrow> jsstring \<Rightarrow> IkpCenterFormData \<Rightarrow> IkpCenterFormData \<Rightarrow> bool" where
  "IkpCenterDialog_submit isSaving title initialValues values =
     IkpCenterDialog_submit_disabled isSaving (ikpCenterSchema values)
       (isDirty initialValues values) title"

subsection \<open>LocationsVillageDialog and LocationsDistrictDialog\<close>

definition LocationsVillageDialog_villageSchema :: "LocationsVillageFormData \<Rightarrow> bool" where
  "LocationsVillageDialog_villageSchema v =
     (1 \<le> length (lv_stateId v) \<and> 1 \<le> length (lv_districtId v) \<and> 1 \<le> length (lv_mandalId v)
      \<and> 1 \<le> length (lv_name v))"

definition LocationsVillageDialog_submit_disabled :: "bool \<Rightarrow> bool \<Rightarrow> bool" where
  \<comment> \<open>\<open>isSaving || !isValid\<close>\<close>
  "LocationsVillageDialog_submit_disabled isSaving isValid = (isSaving \<or> \<not> isValid)"

text \<open>
  The form of \<open>LocationsVillageDialog\<close>: its values and \<open>formState.isValid\<close> as last
  computed.  The state and district comboboxes clear the levels below with a plain
  \<open>setValue\<close>, after \<open>field.onChange\<close> has validated.
\<close>

record LocationsVillageForm =
  lvf_values :: LocationsVillageFormData
  lvf_isValid :: bool

definition LocationsVillageDialog_updateValid :: "LocationsVillageForm \<Rightarrow> LocationsVillageForm" where
  \<comment> \<open>the resolver runs on the values held now\<close>
  "LocationsVillageDialog_updateValid f =
     f\<lparr>lvf_isValid := LocationsVillageDialog_villageSchema (lvf_values f)\<rparr>"

definition LocationsVillageDialog_reset :: "LocationsVillageFormData \<Rightarrow> LocationsVillageForm" where
  \<comment> \<open>\<open>if (open) reset(initialValues)\<close>\<close>
  "LocationsVillageDialog_reset initialValues =
     LocationsVillageDialog_updateValid \<lparr>lvf_values = initialValues, lvf_isValid = False\<rparr>"

definition LocationsVillageDialog_field_onChange ::
    "(LocationsVillageFormData \<Rightarrow> LocationsVillageFormData) \<Rightarrow> LocationsVillageForm
       \<Rightarrow> LocationsVillageForm" where
  \<comment> \<open>\<open>field.onChange\<close> of a controlled field, or the \<open>onChange\<close> of a registered input: the
      value is written, then validity is computed\<close>
  "LocationsVillageDialog_field_onChange write f =
     LocationsVillageDialog_updateValid (f\<lparr>lvf_values := write (lvf_values f)\<rparr>)"

definition LocationsVillageDialog_setValue ::
    "(LocationsVillageFormData \<Rightarrow> LocationsVillageFormData) \<Rightarrow> LocationsVillageForm
       \<Rightarrow> LocationsVillageForm" where
  \<comment> \<open>\<open>setValue(name, value)\<close> with no options: the value is written, nothing is validated\<close>
  "LocationsVillageDialog_setValue write f = f\<lparr>lvf_values := write (lvf_values f)\<rparr>"

definition LocationsVillageDialog_state_picked ::
    "jsstring \<Rightarrow> LocationsVillageForm \<Rightarrow> LocationsVillageForm" where
  \<comment> \<open>\<open>field.onChange(v); setValue("districtId", ""); setValue("mandalId", "")\<close>\<close>
  "LocationsVillageDialog_state_picked v f =
     LocationsVillageDialog_setValue (\<lambda>d. d\<lparr>lv_mandalId := []\<rparr>)
       (LocationsVillageDialog_setValue (\<lambda>d. d\<lparr>lv_districtId := []\<rparr>)
         (LocationsVillageDialog_field_onChange (\<lambda>d. d\<lparr>lv_stateId := v\<rparr>) f))"

definition LocationsVillageDialog_district_picked ::
    "jsstring \<Rightarrow> LocationsVillageForm \<Rightarrow> LocationsVillageForm" where
  \<comment> \<open>\<open>field.onChange(v); setValue("mandalId", "")\<close>\<close>
  "LocationsVillageDialog_district_picked v f =
     LocationsVillageDialog_setValue (\<lambda>d. d\<lparr>lv_mandalId := []\<rparr>)
       (LocationsVillageDialog_field_onChange (\<lambda>d. d\<lparr>lv_districtId := v\<rparr>) f)"

definition LocationsVillageDialog_submit :: "bool \<Rightarrow> LocationsVillageForm \<Rightarrow> bool" where
  \<comment> \<open>the \<open>disabled\<close> prop of the Save button\<close>
  "LocationsVillageDialog_submit isSaving f =
     LocationsVillageDialog_submit_disabled isSaving (lvf_isValid f)"

record LocationsDistrictFormData =
  ld_stateId :: jsstring
  ld_name :: jsstring
  ld_code :: "jsstring option"
  ld_isActive :: bool

definition LocationsDistrictDialog_districtSchema :: "LocationsDistrictFormData \<Rightarrow> bool" where
  "LocationsDistrictDialog_districtSchema v = (1 \<le> length (ld_stateId v) \<and> 1 \<le> length (ld_name v))"

definition LocationsDistrictDialog_submit_disabled :: "bool \<Rightarrow> bool \<Rightarrow> bool" where
  \<comment> \<open>\<open>isSaving || !isValid\<close>\<close>
  "LocationsDistrictDialog_submit_disabled isSaving isValid = (isSaving \<or> \<not> isValid)"

definition LocationsDistrictDialog_submit :: "bool \<Rightarrow> LocationsDistrictFormData \<Rightarrow> bool" where
  "LocationsDistrictDialog_submit isSaving values =
     LocationsDistrictDialog_submit_disabled isSaving (LocationsDistrictDialog_districtSchema values)"

section \<open>Bulk upload and create on the Locations pages\<close>

record LocationsMandalFormData =
  lm_stateId :: jsstring
  lm_districtId :: jsstring
  lm_name :: jsstring
  lm_code :: "jsstring option"
  lm_isActive :: bool

text \<open>The requests the two pages send for create and bulk upload, with their arguments.\<close>

datatype LocationsRemoteCall =
    BulkUploadMandals jsstring jsstring
  | BulkUploadVillages jsstring jsstring
  | CreateAdminMandal LocationsMandalFormData
  | CreateAdminVillage LocationsVillageFormData

record BulkUploadArgs =
  bu_parentId :: jsstring
  bu_items :: jsstring

subsection \<open>BulkUploadMandalsDialog\<close>

record BulkUploadMandalsDialogState =
  bum_stateId :: jsstring
  bum_districtId :: jsstring
  bum_items :: jsstring

definition BulkUploadMandalsDialog_upload_disabled ::
    "BulkUploadMandalsDialogState \<Rightarrow> bool \<Rightarrow> bool" where
  \<comment> \<open>\<open>!districtId || !items.trim() || isUploading\<close>\<close>
  "BulkUploadMandalsDialog_upload_disabled st isUploading =
     (\<not> truthy (bum_districtId st) \<or> \<not> truthy (trim (bum_items st)) \<or> isUploading)"

definition LocationsMandalsPage_bulkUploadMutation_mutationFn ::
    "BulkUploadArgs \<Rightarrow> LocationsRemoteCall" where
  "LocationsMandalsPage_bulkUploadMutation_mutationFn data =
     BulkUploadMandals (bu_parentId data) (bu_items data)"

definition LocationsMandalsPage_onUpload :: "jsstring \<Rightarrow> jsstring \<Rightarrow> LocationsRemoteCall" where
  \<comment> \<open>\<open>(pid, txt) => bulkUploadMutation.mutate({ parentId: pid, items: txt })\<close>\<close>
  "LocationsMandalsPage_onUpload pid txt =
     LocationsMandalsPage_bulkUploadMutation_mutationFn \<lparr>bu_parentId = pid, bu_items = txt\<rparr>"

definition BulkUploadMandalsDialog_upload_onClick ::
    "BulkUploadMandalsDialogState \<Rightarrow> bool \<Rightarrow> LocationsRemoteCall option" where
  \<comment> \<open>a click on the Upload button; a disabled button does nothing\<close>
  "BulkUploadMandalsDialog_upload_onClick st isUploading =
     (if BulkUploadMandalsDialog_upload_disabled st isUploading then None
      else Some (LocationsMandalsPage_onUpload (bum_districtId st) (bum_items st)))"

subsection \<open>BulkUploadVillagesDialog\<close>

record BulkUploadVillagesDialogState =
  buv_stateId :: jsstring
  buv_districtId :: jsstring
  buv_mandalId :: jsstring
  buv_items :: jsstring

definition BulkUploadVillagesDialog_upload_disabled ::
    "BulkUploadVillagesDialogState \<Rightarrow> bool \<Rightarrow> bool" where
  \<comment> \<open>\<open>!mandalId || !items.trim() || isUploading\<close>\<close>
  "BulkUploadVillagesDialog_upload_disabled st isUploading =
     (\<not> truthy (buv_mandalId st) \<or> \<not> truthy (trim (buv_items st)) \<or> isUploading)"

definition LocationsVillagesPage_bulkUploadMutation_mutationFn ::
    "BulkUploadArgs \<Rightarrow> LocationsRemoteCall" where
  "LocationsVillagesPage_bulkUploadMutation_mutationFn data =
     BulkUploadVillages (bu_parentId data) (bu_items data)"

definition LocationsVillagesPage_onUpload :: "jsstring \<Rightarrow> jsstring \<Rightarrow> LocationsRemoteCall" where
  "LocationsVillagesPage_onUpload pid txt =
     LocationsVillagesPage_bulkUploadMutation_mutationFn \<lparr>bu_parentId = pid, bu_items = txt\<rparr>"

definition BulkUploadVillagesDialog_upload_onClick ::
    "BulkUploadVillagesDialogState \<Rightarrow> bool \<Rightarrow> LocationsRemoteCall option" where
  "BulkUploadVillagesDialog_upload_onClick st isUploading =
     (if BulkUploadVillagesDialog_upload_disabled st isUploading then None
      else Some (LocationsVillagesPage_onUpload (buv_mandalId st) (buv_items st)))"

subsection \<open>Create with a generated code\<close>

definition falsy_code :: "jsstring option \<Rightarrow> bool" where
  \<comment> \<open>\<open>!payload.code\<close>: the code is \<open>undefined\<close> or the empty string\<close>
  "falsy_code c = (case c of None \<Rightarrow> True | Some s \<Rightarrow> \<not> truthy s)"

definition generatedCode :: "jsstring \<Rightarrow> jsstring \<Rightarrow> jsstring" where
  \<comment> \<open>the template \<open>prefix + r.substring(2, 8).toUpperCase()\<close>, where \<open>r\<close> is the string
      \<open>Math.random().toString(36)\<close>\<close>
  "generatedCode prefix r = prefix @ toUpperCase (substring 2 8 r)"

definition LocationsMandalsPage_create_onSave ::
    "jsstring \<Rightarrow> LocationsMandalFormData \<Rightarrow> LocationsRemoteCall" where
  \<comment> \<open>\<open>random36\<close> is the value of \<open>Math.random().toString(36)\<close> at this call\<close>
  "LocationsMandalsPage_create_onSave random36 data =
     (let payload = data;
          payload = (if falsy_code (lm_code payload)
                     then payload\<lparr>lm_code := Some (generatedCode (js ''M'') random36)\<rparr>
                     else payload)
      in CreateAdminMandal payload)"

definition LocationsVillagesPage_create_onSave ::
    "jsstring \<Rightarrow> LocationsVillageFormData \<Rightarrow> LocationsRemoteCall" where
  "LocationsVillagesPage_create_onSave random36 data =
     (let payload = data;
          payload = (if falsy_code (lv_code payload)
                     then payload\<lparr>lv_code := Some (generatedCode (js ''V'') random36)\<rparr>
                     else payload)
      in CreateAdminVillage payload)"

section \<open>IkpVillagesPage: saving an edited village\<close>

record AdminIkpVillage =
  ikv_id :: jsstring
  ikv_mandalId :: jsstring
  ikv_name :: jsstring
  ikv_isActive :: bool

text \<open>An object literal: its properties in the order written.\<close>

datatype jsval = JString jsstring | JBool bool

type_synonym jsobject = "(string \<times> jsval) list"

record UpdateVillageArgs =
  ua_id :: jsstring
  ua_payload :: jsobject

datatype IkpVillagesRemoteCall =
    CreateAdminIkpVillage jsobject
  | UpdateAdminIkpVillage jsstring jsobject

definition IkpVillagesPage_updateMutation_mutationFn :: "UpdateVillageArgs \<Rightarrow> IkpVillagesRemoteCall" where
  \<comment> \<open>\<open>(args) => updateAdminIkpVillage(args.id, args.payload)\<close>\<close>
  "IkpVillagesPage_updateMutation_mutationFn args = UpdateAdminIkpVillage (ua_id args) (ua_payload args)"

definition IkpVillagesPage_edit_onSave ::
    "AdminIkpVillage option \<Rightarrow> IkpVillageFormData \<Rightarrow> IkpVillagesRemoteCall option" where
  \<comment> \<open>\<open>if (!editing) return;\<close> then \<open>mutate\<close> with the id of the row and a two-field payload\<close>
  "IkpVillagesPage_edit_onSave editing data =
     (case editing of
        None \<Rightarrow> None
      | Some row \<Rightarrow>
          Some (IkpVillagesPage_updateMutation_mutationFn
                  \<lparr>ua_id = ikv_id row,
                   ua_payload = [(''name'', JString (ivf_name data)),
                                 (''isActive'', JBool (ivf_isActive data))]\<rparr>))"

definition IkpVillagesPage_create_onSave :: "IkpVillageFormData \<Rightarrow> IkpVillagesRemoteCall" where
  "IkpVillagesPage_create_onSave data =
     CreateAdminIkpVillage [(''mandalId'', JString (ivf_mandalId data)),
                            (''name'', JString (ivf_name data)),
                            (''isActive'', JBool (ivf_isActive data))]"

fun transmitted :: "IkpVillagesRemoteCall \<Rightarrow> string list" where
  \<comment> \<open>the property names of the payload a request carries\<close>
  "transmitted (CreateAdminIkpVillage payload) = map fst payload"
| "transmitted (UpdateAdminIkpVillage i payload) = map fst payload"

section \<open>LocationsMandalsPage: dialogs and failed mutations\<close>

record LocationsMandalsPageState =
  lmd_createOpen :: bool
  lmd_bulkOpen :: bool
  lmd_editing :: "AdminMandal option"
  lmd_deactivateTarget :: "AdminMandal option"
  lmd_deleteTarget :: "AdminMandal option"
  lmd_toasts :: "(jsstring \<times> ToastKind) list"
  lmd_invalidated :: "jsstring list"

definition LocationsMandalsPage_showToast ::
    "jsstring \<Rightarrow> ToastKind \<Rightarrow> LocationsMandalsPageState \<Rightarrow> LocationsMandalsPageState" where
  "LocationsMandalsPage_showToast msg kind st = st\<lparr>lmd_toasts := lmd_toasts st @ [(msg, kind)]\<rparr>"

definition LocationsMandalsPage_createMutation_onError ::
    "thrown \<Rightarrow> LocationsMandalsPageState \<Rightarrow> LocationsMandalsPageState" where
  "LocationsMandalsPage_createMutation_onError err st =
     LocationsMandalsPage_showToast (errorMessageOr err (js ''Failed.'')) error st"

definition LocationsMandalsPage_updateMutation_onError ::
    "thrown \<Rightarrow> LocationsMandalsPageState \<Rightarrow> LocationsMandalsPageState" where
  "LocationsMandalsPage_updateMutation_onError err st =
     LocationsMandalsPage_showToast (errorMessageOr err (js ''Failed.'')) error st"

definition LocationsMandalsPage_deactivateMutation_onError ::
    "thrown \<Rightarrow> LocationsMandalsPageState \<Rightarrow> LocationsMandalsPageState" where
  "LocationsMandalsPage_deactivateMutation_onError err st =
     LocationsMandalsPage_showToast (errorMessageOr err (js ''Failed.'')) error st"

definition LocationsMandalsPage_deleteMutation_onError ::
    "thrown \<Rightarrow> LocationsMandalsPageState \<Rightarrow> LocationsMandalsPageState" where
  "LocationsMandalsPage_deleteMutation_onError err st =
     LocationsMandalsPage_showToast (errorMessageOr err (js ''Failed.'')) error st"

section \<open>Failed mutations on the other pages\<close>

text \<open>
  \<open>IkpDistrictsPage\<close>, \<open>IkpVillagesPage\<close> and \<open>IkpCentersPage\<close> keep the same dialog cells
  (\<open>createOpen\<close>, \<open>editing\<close>, \<open>deactivateTarget\<close>), each over its own row type.
\<close>

record 'row IkpPageDialogs =
  ipd_createOpen :: bool
  ipd_editing :: "'row option"
  ipd_deactivateTarget :: "'row option"
  ipd_toasts :: "(jsstring \<times> ToastKind) list"
  ipd_invalidated :: "jsstring list"

definition IkpPage_showToast ::
    "jsstring \<Rightarrow> ToastKind \<Rightarrow> 'row IkpPageDialogs \<Rightarrow> 'row IkpPageDialogs" where
  "IkpPage_showToast msg kind st = st\<lparr>ipd_toasts := ipd_toasts st @ [(msg, kind)]\<rparr>"

definition IkpDistrictsPage_createMutation_onError ::
    "thrown \<Rightarrow> 'row IkpPageDialogs \<Rightarrow> 'row IkpPageDialogs" where
  "IkpDistrictsPage_createMutation_onError err st =
     IkpPage_showToast (errorMessageOr err (js ''Failed to create district.'')) error st"

definition IkpDistrictsPage_updateMutation_onError ::
    "thrown \<Rightarrow> 'row IkpPageDialogs \<Rightarrow> 'row IkpPageDialogs" where
  "IkpDistrictsPage_updateMutation_onError err st =
     IkpPage_showToast (errorMessageOr err (js ''Failed to update district.'')) error st"

definition IkpDistrictsPage_deactivateMutation_onError ::
    "thrown \<Rightarrow> 'row IkpPageDialogs \<Rightarrow> 'row IkpPageDialogs" where
  "IkpDistrictsPage_deactivateMutation_onError err st =
     IkpPage_showToast (errorMessageOr err (js ''Failed to deactivate district.'')) error st"

definition IkpVillagesPage_createMutation_onError ::
    "thrown \<Rightarrow> 'row IkpPageDialogs \<Rightarrow> 'row IkpPageDialogs" where
  "IkpVillagesPage_createMutation_onError err st =
     IkpPage_showToast (errorMessageOr err (js ''Failed to create village.'')) error st"

definition IkpVillagesPage_updateMutation_onError ::
    "thrown \<Rightarrow> 'row IkpPageDialogs \<Rightarrow> 'row IkpPageDialogs" where
  "IkpVillagesPage_updateMutation_onError err st =
     IkpPage_showToast (errorMessageOr err (js ''Failed to update village.'')) error st"

definition IkpVillagesPage_deactivateMutation_onError ::
    "thrown \<Rightarrow> 'row IkpPageDialogs \<Rightarrow> 'row IkpPageDialogs" where
  "IkpVillagesPage_deactivateMutation_onError err st =
     IkpPage_showToast (errorMessageOr err (js ''Failed to deactivate village.'')) error st"

definition IkpCentersPage_createMutation_onError ::
    "thrown \<Rightarrow> 'row IkpPageDialogs \<Rightarrow> 'row IkpPageDialogs" where
  "IkpCentersPage_createMutation_onError err st =
     IkpPage_showToast (errorMessageOr err (js ''Failed to create IKP center.'')) error st"

definition IkpCentersPage_updateMutation_onError ::
    "thrown \<Rightarrow> 'row IkpPageDialogs \<Rightarrow> 'row IkpPageDialogs" where
  "IkpCentersPage_updateMutation_onError err st =
     IkpPage_showToast (errorMessageOr err (js ''Failed to update IKP center.'')) error st"

definition IkpCentersPage_deactivateMutation_onError ::
    "thrown \<Rightarrow> 'row IkpPageDialogs \<Rightarrow> 'row IkpPageDialogs" where
  "IkpCentersPage_deactivateMutation_onError err st =
     IkpPage_showToast (errorMessageOr err (js ''Failed to deactivate IKP center.'')) error st"

definition LocationsMandalsPage_bulkUploadMutation_onError ::
    "thrown \<Rightarrow> LocationsMandalsPageState \<Rightarrow> LocationsMandalsPageState" where
  "LocationsMandalsPage_bulkUploadMutation_onError err st =
     LocationsMandalsPage_showToast (errorMessageOr err (js ''Failed.'')) error st"

text \<open>The dialog cells of \<open>LocationsVillagesPage\<close>, over its row type.\<close>

record 'row LocationsVillagesPageState =
  lvd_createOpen :: bool
  lvd_bulkOpen :: bool
  lvd_editing :: "'row option"
  lvd_deactivateTarget :: "'row option"
  lvd_deleteTarget :: "'row option"
  lvd_toasts :: "(jsstring \<times> ToastKind) list"
  lvd_invalidated :: "jsstring list"

definition LocationsVillagesPage_showToast ::
    "jsstring \<Rightarrow> ToastKind \<Rightarrow> 'row LocationsVillagesPageState \<Rightarrow> 'row LocationsVillagesPageState" where
  "LocationsVillagesPage_showToast msg kind st = st\<lparr>lvd_toasts := lvd_toasts st @ [(msg, kind)]\<rparr>"

definition LocationsVillagesPage_createMutation_onError ::
    "thrown \<Rightarrow> 'row LocationsVillagesPageState \<Rightarrow> 'row LocationsVillagesPageState" where
  "LocationsVillagesPage_createMutation_onError err st =
     LocationsVillagesPage_showToast (errorMessageOr err (js ''Failed.'')) error st"

definition LocationsVillagesPage_updateMutation_onError ::
    "thrown \<Rightarrow> 'row LocationsVillagesPageState \<Rightarrow> 'row LocationsVillagesPageState" where
  "LocationsVillagesPage_updateMutation_onError err st =
     LocationsVillagesPage_showToast (errorMessageOr err (js ''Failed.'')) error st"

definition LocationsVillagesPage_updatePincodeMutation_onError ::
    "thrown \<Rightarrow> 'row LocationsVillagesPageState \<Rightarrow> 'row LocationsVillagesPageState" where
  \<comment> \<open>\<open>onError: () => showToast("Failed to update pincode.", "error")\<close>: what was thrown is
      not looked at\<close>
  "LocationsVillagesPage_updatePincodeMutation_onError err st =
     LocationsVillagesPage_showToast (js ''Failed to update pincode.'') error st"

definition LocationsVillagesPage_deactivateMutation_onError ::
    "thrown \<Rightarrow> 'row LocationsVillagesPageState \<Rightarrow> 'row LocationsVillagesPageState" where
  "LocationsVillagesPage_deactivateMutation_onError err st =
     LocationsVillagesPage_showToast (errorMessageOr err (js ''Failed.'')) error st"

definition LocationsVillagesPage_deleteMutation_onError ::
    "thrown \<Rightarrow> 'row LocationsVillagesPageState \<Rightarrow> 'row LocationsVillagesPageState" where
  "LocationsVillagesPage_deleteMutation_onError err st =
     LocationsVillagesPage_showToast (errorMessageOr err (js ''Failed.'')) error st"

definition LocationsVillagesPage_bulkUploadMutation_onError ::
    "thrown \<Rightarrow> 'row LocationsVillagesPageState \<Rightarrow> 'row LocationsVillagesPageState" where
  "LocationsVillagesPage_bulkUploadMutation_onError err st =
     LocationsVillagesPage_showToast (errorMessageOr err (js ''Failed.'')) error st"

section \<open>Picking an option in a filter combobox\<close>

text \<open>
  Modelled from the spec: the select handler of the \<open>GroupedCombobox\<close> component
  (\<open>components/ui/grouped-combobox\<close>), which the pages import and which is not among the
  sources.  The spec says that toggling a filter to the value it already holds clears it
  (acts as a deselect): picking the option that is the current value hands the empty
  string to \<open>onValueChange\<close>, picking any other option hands over its value.
\<close>

definition GroupedCombobox_onSelect :: "jsstring \<Rightarrow> jsstring \<Rightarrow> jsstring" where
  "GroupedCombobox_onSelect current optionValue = (if optionValue = current then [] else optionValue)"

definition LocationsMandalsPage_districtFilter_onValueChange ::
    "jsstring \<Rightarrow> LocationsMandalsFilters \<Rightarrow> LocationsMandalsFilters" where
  \<comment> \<open>\<open>setDistrictFilter\<close>\<close>
  "LocationsMandalsPage_districtFilter_onValueChange v st = st\<lparr>lmp_districtFilter := v\<rparr>"

definition LocationsVillagesPage_mandalFilter_onValueChange ::
    "jsstring \<Rightarrow> LocationsVillagesFilters \<Rightarrow> LocationsVillagesFilters" where
  \<comment> \<open>\<open>setMandalFilter\<close>\<close>
  "LocationsVillagesPage_mandalFilter_onValueChange v st = st\<lparr>lvp_mandalFilter := v\<rparr>"

text \<open>The user picks option \<open>opt\<close> in a filter combobox whose \<open>value\<close> prop is the filter.\<close>

definition LocationsMandalsPage_pick_state ::
    "jsstring \<Rightarrow> LocationsMandalsFilters \<Rightarrow> LocationsMandalsFilters" where
  "LocationsMandalsPage_pick_state opt st =
     LocationsMandalsPage_stateFilter_onValueChange
       (GroupedCombobox_onSelect (lmp_stateFilter st) opt) st"

definition LocationsMandalsPage_pick_district ::
    "jsstring \<Rightarrow> LocationsMandalsFilters \<Rightarrow> LocationsMandalsFilters" where
  "LocationsMandalsPage_pick_district opt st =
     LocationsMandalsPage_districtFilter_onValueChange
       (GroupedCombobox_onSelect (lmp_districtFilter st) opt) st"

definition LocationsVillagesPage_pick_state ::
    "jsstring \<Rightarrow> LocationsVillagesFilters \<Rightarrow> LocationsVillagesFilters" where
  "LocationsVillagesPage_pick_state opt st =
     LocationsVillagesPage_stateFilter_onValueChange
       (GroupedCombobox_onSelect (lvp_stateFilter st) opt) st"

definition LocationsVillagesPage_pick_district ::
    "jsstring \<Rightarrow> LocationsVillagesFilters \<Rightarrow> LocationsVillagesFilters" where
  "LocationsVillagesPage_pick_district opt st =
     LocationsVillagesPage_districtFilter_onValueChange
       (GroupedCombobox_onSelect (lvp_districtFilter st) opt) st"

definition LocationsVillagesPage_pick_mandal ::
    "jsstring \<Rightarrow> LocationsVillagesFilters \<Rightarrow> LocationsVillagesFilters" where
  "LocationsVillagesPage_pick_mandal opt st =
     LocationsVillagesPage_mandalFilter_onValueChange
       (GroupedCombobox_onSelect (lvp_mandalFilter st) opt) st"

section \<open>Facts about the string functions\<close>

lemma truthy_iff: "truthy s \<longleftrightarrow> s \<noteq> []"
  by (simp add: truthy_def)

lemma dropWhile_keeps_witness:
  "(\<exists>c \<in> set (dropWhile P xs). \<not> P c) \<longleftrightarrow> (\<exists>c \<in> set xs. \<not> P c)"
proof
  assume "\<exists>c \<in> set (dropWhile P xs). \<not> P c"
  then show "\<exists>c \<in> set xs. \<not> P c"
    by (blast dest: set_dropWhileD)
next
  assume "\<exists>c \<in> set xs. \<not> P c"
  then have ne: "dropWhile P xs \<noteq> []"
    by (simp add: dropWhile_eq_Nil_conv)
  then have "\<not> P (hd (dropWhile P xs))"
    by (rule hd_dropWhile)
  moreover from ne have "hd (dropWhile P xs) \<in> set (dropWhile P xs)"
    by simp
  ultimately show "\<exists>c \<in> set (dropWhile P xs). \<not> P c"
    by blast
qed

lemma trim_nonempty_iff: "trim s \<noteq> [] \<longleftrightarrow> (\<exists>c \<in> set s. \<not> isWhiteSpace c)"
proof -
  have "trim s \<noteq> [] \<longleftrightarrow> (\<exists>c \<in> set (dropWhile isWhiteSpace s). \<not> isWhiteSpace c)"
    by (simp add: trim_def dropWhile_eq_Nil_conv)
  then show ?thesis
    by (simp only: dropWhile_keeps_witness)
qed

lemma trim_empty_iff: "trim s = [] \<longleftrightarrow> (\<forall>c \<in> set s. isWhiteSpace c)"
  using trim_nonempty_iff [of s] by blast

lemma trim_nonempty_imp: "trim s \<noteq> [] \<Longrightarrow> s \<noteq> []"
  by (auto simp: trim_nonempty_iff)

section \<open>Cascading selection\<close>

text \<open>
  Claim C1, as the source has it.  Every change of the state selection, to a state or to
  the empty selection, clears every selection below it: in the form context the state
  combobox of \<open>LocationsVillageDialog\<close> (district and mandal; the village is the record
  being edited) and of \<open>IkpCenterDialog\<close> (district, mandal and village), in the filter
  context the state select of \<open>IkpCentersPage\<close> (district, mandal and village) and the
  state combobox of \<open>LocationsVillagesPage\<close> (district and mandal).  When the new state
  id \<open>v\<close> is non-empty, the district options are exactly the districts whose \<open>stateId\<close> is
  \<open>v\<close>.  When the state is cleared, the district options of the two dialogs are empty
  and those of the \<open>LocationsVillagesPage\<close> filter bar are the whole collection.
\<close>

theorem C1_state_change_clears_descendants:
  "lv_stateId (LocationsVillageDialog_stateId_onValueChange v form) = v
   \<and> lv_districtId (LocationsVillageDialog_stateId_onValueChange v form) = []
   \<and> lv_mandalId (LocationsVillageDialog_stateId_onValueChange v form) = []
   \<and> ic_stateId (IkpCenterDialog_stateId_onValueChange v cform) = v
   \<and> ic_districtId (IkpCenterDialog_stateId_onValueChange v cform) = []
   \<and> ic_mandalId (IkpCenterDialog_stateId_onValueChange v cform) = []
   \<and> ic_villageId (IkpCenterDialog_stateId_onValueChange v cform) = []
   \<and> flt_stateId (IkpCentersPage_state_onValueChange w p) = (case w of None \<Rightarrow> [] | Some s \<Rightarrow> s)
   \<and> flt_districtId (IkpCentersPage_state_onValueChange w p) = []
   \<and> flt_mandalId (IkpCentersPage_state_onValueChange w p) = []
   \<and> flt_villageId (IkpCentersPage_state_onValueChange w p) = []
   \<and> lvp_stateFilter (LocationsVillagesPage_stateFilter_onValueChange v st) = v
   \<and> lvp_districtFilter (LocationsVillagesPage_stateFilter_onValueChange v st) = []
   \<and> lvp_mandalFilter (LocationsVillagesPage_stateFilter_onValueChange v st) = []
   \<and> (v \<noteq> [] \<longrightarrow>
        LocationsVillageDialog_filteredDistricts districts
            (lv_stateId (LocationsVillageDialog_stateId_onValueChange v form))
          = filter (\<lambda>d. d_stateId d = v) districts
      \<and> IkpCenterDialog_filteredDistricts districts
            (ic_stateId (IkpCenterDialog_stateId_onValueChange v cform))
          = filter (\<lambda>d. d_stateId d = v) districts
      \<and> map grp_options (LocationsVillagesPage_districtFilterGroups districts
            (lvp_stateFilter (LocationsVillagesPage_stateFilter_onValueChange v st)))
          = [map (\<lambda>d. \<lparr>opt_value = d_id d, opt_label = d_name d\<rparr>)
               (filter (\<lambda>d. d_stateId d = v) districts)])
   \<and> LocationsVillageDialog_filteredDistricts districts
        (lv_stateId (LocationsVillageDialog_stateId_onValueChange [] form)) = []
   \<and> IkpCenterDialog_filteredDistricts districts
        (ic_stateId (IkpCenterDialog_stateId_onValueChange [] cform)) = []
   \<and> map grp_options (LocationsVillagesPage_districtFilterGroups districts
        (lvp_stateFilter (LocationsVillagesPage_stateFilter_onValueChange [] st)))
      = [map (\<lambda>d. \<lparr>opt_value = d_id d, opt_label = d_name d\<rparr>) districts]"
  by (simp add: LocationsVillageDialog_stateId_onValueChange_def
      LocationsVillageDialog_filteredDistricts_def IkpCenterDialog_stateId_onValueChange_def
      IkpCenterDialog_filteredDistricts_def IkpCentersPage_state_onValueChange_def
      LocationsVillagesPage_stateFilter_onValueChange_def
      LocationsVillagesPage_districtFilterGroups_def truthy_def nullish_def)

theorem C1_state_change_witness:
  "js ''S2'' \<noteq> []
   \<and> lv_districtId (LocationsVillageDialog_stateId_onValueChange (js ''S2'')
        \<lparr>lv_stateId = js ''S1'', lv_districtId = js ''D1'', lv_mandalId = js ''M1'',
         lv_name = js ''V'', lv_code = None, lv_pincode = None, lv_isActive = True\<rparr>) = []
   \<and> LocationsVillageDialog_filteredDistricts
        [\<lparr>d_id = js ''D1'', d_name = js ''A'', d_stateId = js ''S1''\<rparr>,
         \<lparr>d_id = js ''D2'', d_name = js ''B'', d_stateId = js ''S2''\<rparr>]
        (lv_stateId (LocationsVillageDialog_stateId_onValueChange (js ''S2'')
          \<lparr>lv_stateId = js ''S1'', lv_districtId = js ''D1'', lv_mandalId = js ''M1'',
           lv_name = js ''V'', lv_code = None, lv_pincode = None, lv_isActive = True\<rparr>))
      = [\<lparr>d_id = js ''D2'', d_name = js ''B'', d_stateId = js ''S2''\<rparr>]
   \<and> flt_stateId (IkpCentersPage_state_onValueChange None
        (IkpCentersPage_initial_filters\<lparr>flt_stateId := js ''S1'', flt_villageId := js ''V9''\<rparr>)) = []
   \<and> flt_villageId (IkpCentersPage_state_onValueChange None
        (IkpCentersPage_initial_filters\<lparr>flt_stateId := js ''S1'', flt_villageId := js ''V9''\<rparr>)) = []"
  using C1_state_change_clears_descendants [where v = "js ''S2''"
        and form = "\<lparr>lv_stateId = js ''S1'', lv_districtId = js ''D1'', lv_mandalId = js ''M1'',
         lv_name = js ''V'', lv_code = None, lv_pincode = None, lv_isActive = True\<rparr>"
        and districts = "[\<lparr>d_id = js ''D1'', d_name = js ''A'', d_stateId = js ''S1''\<rparr>,
         \<lparr>d_id = js ''D2'', d_name = js ''B'', d_stateId = js ''S2''\<rparr>]"
        and cform = "\<lparr>ic_stateId = js ''S1'', ic_districtId = js ''D1'', ic_mandalId = js ''M1'',
         ic_villageId = js ''V1'', ic_name = js ''C'', ic_notes = None, ic_isActive = True\<rparr>"
        and w = None
        and p = "IkpCentersPage_initial_filters\<lparr>flt_stateId := js ''S1'', flt_villageId := js ''V9''\<rparr>"
        and st = "\<lparr>lvp_stateFilter = js ''S1'', lvp_districtFilter = js ''D1'',
         lvp_mandalFilter = js ''M1''\<rparr>"]
  by (simp add: js_def truthy_def nullish_def LocationsVillageDialog_stateId_onValueChange_def
      LocationsVillageDialog_filteredDistricts_def IkpCentersPage_state_onValueChange_def
      IkpCentersPage_initial_filters_def)

theorem C1_cleared_state_counterexample:
  "lvp_stateFilter (LocationsVillagesPage_stateFilter_onValueChange []
      \<lparr>lvp_stateFilter = js ''S1'', lvp_districtFilter = js ''D1'', lvp_mandalFilter = js ''M1''\<rparr>) = []
   \<and> map grp_options (LocationsVillagesPage_districtFilterGroups
        [\<lparr>d_id = js ''D1'', d_name = js ''A'', d_stateId = js ''S1''\<rparr>]
        (lvp_stateFilter (LocationsVillagesPage_stateFilter_onValueChange []
          \<lparr>lvp_stateFilter = js ''S1'', lvp_districtFilter = js ''D1'', lvp_mandalFilter = js ''M1''\<rparr>)))
      = [[\<lparr>opt_value = js ''D1'', opt_label = js ''A''\<rparr>]]
   \<and> filter (\<lambda>d. d_stateId d = [])
        [\<lparr>d_id = js ''D1'', d_name = js ''A'', d_stateId = js ''S1''\<rparr>] = []"
  by (simp add: LocationsVillagesPage_stateFilter_onValueChange_def
      LocationsVillagesPage_districtFilterGroups_def truthy_def js_def)

lemma enabled_gate_nonempty: "truthy (js_and s (trim s)) \<Longrightarrow> s \<noteq> [] \<and> trim s \<noteq> []"
  by (simp add: js_and_def truthy_def split: if_splits)

text \<open>
  Claim C2, as the source has it.  In \<open>IkpCentersPage\<close> (filter bar and dialog) and in
  \<open>IkpVillagesPage\<close> a level's option query is enabled only if the parent id is non-empty
  (indeed non-blank).  The districts query of \<open>IkpMandalsPage\<close> is gated on the success of
  the states query alone, whatever the state selection; with an empty selection it asks
  for the districts with no state filter.
\<close>

theorem C2_dependent_queries_gated:
  "(q_enabled (IkpCentersPage_districtsQuery filters) \<longrightarrow>
       flt_stateId filters \<noteq> [] \<and> trim (flt_stateId filters) \<noteq> [])
   \<and> (q_enabled (IkpCentersPage_mandalsQuery filters) \<longrightarrow>
       flt_districtId filters \<noteq> [] \<and> trim (flt_districtId filters) \<noteq> [])
   \<and> (q_enabled (IkpCentersPage_villagesQuery filters) \<longrightarrow>
       flt_mandalId filters \<noteq> [] \<and> trim (flt_mandalId filters) \<noteq> [])
   \<and> (q_enabled (IkpCentersPage_dialog_districtsQuery form) \<longrightarrow>
       ic_stateId form \<noteq> [] \<and> trim (ic_stateId form) \<noteq> [])
   \<and> (q_enabled (IkpCentersPage_dialog_mandalsQuery form) \<longrightarrow>
       ic_districtId form \<noteq> [] \<and> trim (ic_districtId form) \<noteq> [])
   \<and> (q_enabled (IkpCentersPage_dialog_villagesQuery form) \<longrightarrow>
       ic_mandalId form \<noteq> [] \<and> trim (ic_mandalId form) \<noteq> [])
   \<and> (q_enabled (IkpVillagesPage_districtsQuery statesOk stateId) \<longrightarrow>
       stateId \<noteq> [] \<and> trim stateId \<noteq> [])
   \<and> (q_enabled (IkpVillagesPage_mandalsQuery districtsOk districtId) \<longrightarrow>
       districtId \<noteq> [] \<and> trim districtId \<noteq> [])
   \<and> q_enabled (IkpMandalsPage_districtsQuery st) = imp_statesQuery_isSuccess st
   \<and> (imp_stateId st = [] \<longrightarrow>
       q_queryFn (IkpMandalsPage_districtsQuery st) = ListAdminIkpDistricts 1 200 None True)"
proof -
  have a: "\<And>s. truthy (js_and s (trim s)) \<longrightarrow> s \<noteq> [] \<and> trim s \<noteq> []"
    using enabled_gate_nonempty by blast
  show ?thesis
    by (simp add: IkpCentersPage_districtsQuery_def IkpCentersPage_mandalsQuery_def
        IkpCentersPage_villagesQuery_def IkpCentersPage_dialog_districtsQuery_def
        IkpCentersPage_dialog_mandalsQuery_def IkpCentersPage_dialog_villagesQuery_def
        IkpVillagesPage_districtsQuery_def IkpVillagesPage_mandalsQuery_def
        IkpMandalsPage_districtsQuery_def or_undefined_def a)
      (simp add: truthy_def)
qed

theorem C2_dependent_queries_witness:
  "q_enabled (IkpCentersPage_districtsQuery (IkpCentersPage_initial_filters\<lparr>flt_stateId := js ''S1''\<rparr>))
   \<and> flt_stateId (IkpCentersPage_initial_filters\<lparr>flt_stateId := js ''S1''\<rparr>) \<noteq> []
   \<and> \<not> q_enabled (IkpCentersPage_mandalsQuery (IkpCentersPage_initial_filters\<lparr>flt_stateId := js ''S1''\<rparr>))
   \<and> q_enabled (IkpVillagesPage_districtsQuery True (js ''S1''))
   \<and> \<not> q_enabled (IkpVillagesPage_mandalsQuery True (js '' ''))
   \<and> q_queryFn (IkpMandalsPage_districtsQuery IkpMandalsPage_initial)
       = ListAdminIkpDistricts 1 200 None True"
  using C2_dependent_queries_gated [where filters = "IkpCentersPage_initial_filters\<lparr>flt_stateId := js ''S1''\<rparr>"
      and form = "\<lparr>ic_stateId = js ''S1'', ic_districtId = js ''D1'', ic_mandalId = js ''M1'',
         ic_villageId = [], ic_name = [], ic_notes = None, ic_isActive = True\<rparr>"
      and statesOk = True and stateId = "js ''S1''" and districtsOk = True and districtId = "js '' ''"
      and st = IkpMandalsPage_initial]
  by (simp add: js_def truthy_def js_and_def trim_def isWhiteSpace_def or_undefined_def
      IkpCentersPage_initial_filters_def IkpCentersPage_districtsQuery_def
      IkpCentersPage_mandalsQuery_def IkpVillagesPage_districtsQuery_def
      IkpVillagesPage_mandalsQuery_def IkpMandalsPage_districtsQuery_def IkpMandalsPage_initial_def)

theorem C2_mandals_page_counterexample:
  "q_enabled (IkpMandalsPage_districtsQuery (IkpMandalsPage_run [StatesQuerySucceeded]))
   \<and> imp_stateId (IkpMandalsPage_run [StatesQuerySucceeded]) = []
   \<and> q_queryFn (IkpMandalsPage_districtsQuery (IkpMandalsPage_run [StatesQuerySucceeded]))
       = ListAdminIkpDistricts 1 200 None True"
  by (simp add: IkpMandalsPage_run_def IkpMandalsPage_initial_def IkpMandalsPage_districtsQuery_def
      or_undefined_def truthy_def)

text \<open>
  Claim C3, as the source has it.  In the form chain of \<open>LocationsVillageDialog\<close> an empty
  selection at a level gives the empty option list one level down, and a non-empty one
  gives exactly the candidates whose parent reference equals it.  In the filter bars of
  \<open>LocationsMandalsPage\<close> and \<open>LocationsVillagesPage\<close> a non-empty selection narrows in the
  same way, but an empty selection leaves the options equal to the whole collection.
\<close>

theorem C3_option_lists:
  "LocationsVillageDialog_filteredDistricts districts [] = []
   \<and> LocationsVillageDialog_filteredMandals mandals [] = []
   \<and> map grp_options (LocationsVillageDialog_districtGroups
          (LocationsVillageDialog_filteredDistricts districts [])) = [[]]
   \<and> map grp_options (LocationsVillageDialog_mandalGroups
          (LocationsVillageDialog_filteredMandals mandals [])) = [[]]
   \<and> (k \<noteq> [] \<longrightarrow>
        LocationsVillageDialog_filteredDistricts districts k
          = filter (\<lambda>d. d_stateId d = k) districts
      \<and> LocationsVillageDialog_filteredMandals mandals k
          = filter (\<lambda>m. m_districtId m = k) mandals
      \<and> map grp_options (LocationsMandalsPage_districtFilterGroups districts k)
          = [map (\<lambda>x. \<lparr>opt_value = d_id x, opt_label = d_name x\<rparr>)
               (filter (\<lambda>d. d_stateId d = k) districts)]
      \<and> map grp_options (LocationsVillagesPage_districtFilterGroups districts k)
          = [map (\<lambda>x. \<lparr>opt_value = d_id x, opt_label = d_name x\<rparr>)
               (filter (\<lambda>d. d_stateId d = k) districts)]
      \<and> map grp_options (LocationsVillagesPage_mandalFilterGroups mandals k)
          = [map (\<lambda>x. \<lparr>opt_value = m_id x, opt_label = m_name x\<rparr>)
               (filter (\<lambda>m. m_districtId m = k) mandals)])
   \<and> map grp_options (LocationsMandalsPage_districtFilterGroups districts [])
        = [map (\<lambda>x. \<lparr>opt_value = d_id x, opt_label = d_name x\<rparr>) districts]
   \<and> map grp_options (LocationsVillagesPage_districtFilterGroups districts [])
        = [map (\<lambda>x. \<lparr>opt_value = d_id x, opt_label = d_name x\<rparr>) districts]
   \<and> map grp_options (LocationsVillagesPage_mandalFilterGroups mandals [])
        = [map (\<lambda>x. \<lparr>opt_value = m_id x, opt_label = m_name x\<rparr>) mandals]"
  by (simp add: LocationsVillageDialog_filteredDistricts_def
      LocationsVillageDialog_filteredMandals_def LocationsMandalsPage_districtFilterGroups_def
      LocationsVillagesPage_districtFilterGroups_def LocationsVillagesPage_mandalFilterGroups_def
      LocationsVillageDialog_districtGroups_def LocationsVillageDialog_mandalGroups_def
      truthy_def)

theorem C3_option_lists_witness:
  "js ''S2'' \<noteq> []
   \<and> LocationsVillageDialog_filteredDistricts
        [\<lparr>d_id = js ''D1'', d_name = js ''A'', d_stateId = js ''S1''\<rparr>,
         \<lparr>d_id = js ''D2'', d_name = js ''B'', d_stateId = js ''S2''\<rparr>] (js ''S2'')
      = [\<lparr>d_id = js ''D2'', d_name = js ''B'', d_stateId = js ''S2''\<rparr>]
   \<and> map grp_options (LocationsMandalsPage_districtFilterGroups
        [\<lparr>d_id = js ''D1'', d_name = js ''A'', d_stateId = js ''S1''\<rparr>,
         \<lparr>d_id = js ''D2'', d_name = js ''B'', d_stateId = js ''S2''\<rparr>] (js ''S2''))
      = [[\<lparr>opt_value = js ''D2'', opt_label = js ''B''\<rparr>]]"
  using C3_option_lists [where k = "js ''S2''"
      and districts = "[\<lparr>d_id = js ''D1'', d_name = js ''A'', d_stateId = js ''S1''\<rparr>,
         \<lparr>d_id = js ''D2'', d_name = js ''B'', d_stateId = js ''S2''\<rparr>]"
      and mandals = "[\<lparr>m_id = js ''M1'', m_name = js ''X'', m_districtId = js ''D1''\<rparr>]"]
  by (simp add: js_def truthy_def LocationsVillageDialog_filteredDistricts_def
      LocationsMandalsPage_districtFilterGroups_def)

theorem C3_empty_parent_counterexample:
  "map grp_options (LocationsMandalsPage_districtFilterGroups
      [\<lparr>d_id = js ''D1'', d_name = js ''A'', d_stateId = js ''S1''\<rparr>] [])
     = [[\<lparr>opt_value = js ''D1'', opt_label = js ''A''\<rparr>]]
   \<and> map grp_options (LocationsMandalsPage_districtFilterGroups
      [\<lparr>d_id = js ''D1'', d_name = js ''A'', d_stateId = js ''S1''\<rparr>] []) \<noteq> [[]]"
  by (simp add: LocationsMandalsPage_districtFilterGroups_def truthy_def)

section \<open>Failed mutations\<close>

text \<open>
  Claim C4, as the source has it.  When a request fails, the error callback of its
  mutation adds one error toast and changes nothing else of the page: no dialog is
  closed, no confirmation target is cleared and no query is invalidated.  So the create
  dialog and the edit dialog stay open, and the deactivate confirmation of
  \<open>IkpMandalsPage\<close> keeps its target and stays open as well.  For create, update,
  deactivate, delete and bulk upload the toast carries the message of the thrown
  \<open>Error\<close>, or else a fallback: the string of that action on \<open>IkpMandalsPage\<close>,
  \<open>IkpDistrictsPage\<close>, \<open>IkpVillagesPage\<close> and \<open>IkpCentersPage\<close>, and \<open>Failed.\<close> for every
  action on \<open>LocationsMandalsPage\<close> and \<open>LocationsVillagesPage\<close>.  The inline pincode
  update of \<open>LocationsVillagesPage\<close> always shows \<open>Failed to update pincode.\<close>, whatever
  was thrown.
\<close>

theorem C4_failed_mutation:
  "imp_toasts (IkpMandalsPage_createMutation_settled (Inl err) st)
     = imp_toasts st @ [(case err of ErrorValue m \<Rightarrow> m | NonError \<Rightarrow> js ''Failed to create mandal.'', error)]
   \<and> imp_toasts (IkpMandalsPage_updateMutation_settled (Inl err) st)
     = imp_toasts st @ [(case err of ErrorValue m \<Rightarrow> m | NonError \<Rightarrow> js ''Failed to update mandal.'', error)]
   \<and> imp_toasts (IkpMandalsPage_deactivateMutation_settled (Inl err) st)
     = imp_toasts st @ [(case err of ErrorValue m \<Rightarrow> m | NonError \<Rightarrow> js ''Failed to deactivate mandal.'', error)]
   \<and> IkpMandalsPage_createDialog_open (IkpMandalsPage_createMutation_settled (Inl err) st)
     = IkpMandalsPage_createDialog_open st
   \<and> IkpMandalsPage_editDialog_open (IkpMandalsPage_updateMutation_settled (Inl err) st)
     = IkpMandalsPage_editDialog_open st
   \<and> IkpMandalsPage_deactivateDialog_open (IkpMandalsPage_deactivateMutation_settled (Inl err) st)
     = IkpMandalsPage_deactivateDialog_open st
   \<and> IkpMandalsPage_createMutation_settled (Inl err) st
     = st\<lparr>imp_toasts := imp_toasts (IkpMandalsPage_createMutation_settled (Inl err) st)\<rparr>
   \<and> IkpMandalsPage_updateMutation_settled (Inl err) st
     = st\<lparr>imp_toasts := imp_toasts (IkpMandalsPage_updateMutation_settled (Inl err) st)\<rparr>
   \<and> IkpMandalsPage_deactivateMutation_settled (Inl err) st
     = st\<lparr>imp_toasts := imp_toasts (IkpMandalsPage_deactivateMutation_settled (Inl err) st)\<rparr>
   \<and> IkpDistrictsPage_createMutation_onError err k
     = k\<lparr>ipd_toasts := ipd_toasts k @ [(case err of ErrorValue m \<Rightarrow> m | NonError \<Rightarrow> js ''Failed to create district.'', error)]\<rparr>
   \<and> IkpDistrictsPage_updateMutation_onError err k
     = k\<lparr>ipd_toasts := ipd_toasts k @ [(case err of ErrorValue m \<Rightarrow> m | NonError \<Rightarrow> js ''Failed to update district.'', error)]\<rparr>
   \<and> IkpDistrictsPage_deactivateMutation_onError err k
     = k\<lparr>ipd_toasts := ipd_toasts k @ [(case err of ErrorValue m \<Rightarrow> m | NonError \<Rightarrow> js ''Failed to deactivate district.'', error)]\<rparr>
   \<and> IkpVillagesPage_createMutation_onError err k
     = k\<lparr>ipd_toasts := ipd_toasts k @ [(case err of ErrorValue m \<Rightarrow> m | NonError \<Rightarrow> js ''Failed to create village.'', error)]\<rparr>
   \<and> IkpVillagesPage_updateMutation_onError err k
     = k\<lparr>ipd_toasts := ipd_toasts k @ [(case err of ErrorValue m \<Rightarrow> m | NonError \<Rightarrow> js ''Failed to update village.'', error)]\<rparr>
   \<and> IkpVillagesPage_deactivateMutation_onError err k
     = k\<lparr>ipd_toasts := ipd_toasts k @ [(case err of ErrorValue m \<Rightarrow> m | NonError \<Rightarrow> js ''Failed to deactivate village.'', error)]\<rparr>
   \<and> IkpCentersPage_createMutation_onError err k
     = k\<lparr>ipd_toasts := ipd_toasts k @ [(case err of ErrorValue m \<Rightarrow> m | NonError \<Rightarrow> js ''Failed to create IKP center.'', error)]\<rparr>
   \<and> IkpCentersPage_updateMutation_onError err k
     = k\<lparr>ipd_toasts := ipd_toasts k @ [(case err of ErrorValue m \<Rightarrow> m | NonError \<Rightarrow> js ''Failed to update IKP center.'', error)]\<rparr>
   \<and> IkpCentersPage_deactivateMutation_onError err k
     = k\<lparr>ipd_toasts := ipd_toasts k @ [(case err of ErrorValue m \<Rightarrow> m | NonError \<Rightarrow> js ''Failed to deactivate IKP center.'', error)]\<rparr>
   \<and> LocationsMandalsPage_createMutation_onError err l
     = l\<lparr>lmd_toasts := lmd_toasts l @ [(case err of ErrorValue m \<Rightarrow> m | NonError \<Rightarrow> js ''Failed.'', error)]\<rparr>
   \<and> LocationsMandalsPage_updateMutation_onError err l
     = l\<lparr>lmd_toasts := lmd_toasts l @ [(case err of ErrorValue m \<Rightarrow> m | NonError \<Rightarrow> js ''Failed.'', error)]\<rparr>
   \<and> LocationsMandalsPage_deactivateMutation_onError err l
     = l\<lparr>lmd_toasts := lmd_toasts l @ [(case err of ErrorValue m \<Rightarrow> m | NonError \<Rightarrow> js ''Failed.'', error)]\<rparr>
   \<and> LocationsMandalsPage_deleteMutation_onError err l
     = l\<lparr>lmd_toasts := lmd_toasts l @ [(case err of ErrorValue m \<Rightarrow> m | NonError \<Rightarrow> js ''Failed.'', error)]\<rparr>
   \<and> LocationsMandalsPage_bulkUploadMutation_onError err l
     = l\<lparr>lmd_toasts := lmd_toasts l @ [(case err of ErrorValue m \<Rightarrow> m | NonError \<Rightarrow> js ''Failed.'', error)]\<rparr>
   \<and> LocationsVillagesPage_createMutation_onError err w
     = w\<lparr>lvd_toasts := lvd_toasts w @ [(case err of ErrorValue m \<Rightarrow> m | NonError \<Rightarrow> js ''Failed.'', error)]\<rparr>
   \<and> LocationsVillagesPage_updateMutation_onError err w
     = w\<lparr>lvd_toasts := lvd_toasts w @ [(case err of ErrorValue m \<Rightarrow> m | NonError \<Rightarrow> js ''Failed.'', error)]\<rparr>
   \<and> LocationsVillagesPage_deactivateMutation_onError err w
     = w\<lparr>lvd_toasts := lvd_toasts w @ [(case err of ErrorValue m \<Rightarrow> m | NonError \<Rightarrow> js ''Failed.'', error)]\<rparr>
   \<and> LocationsVillagesPage_deleteMutation_onError err w
     = w\<lparr>lvd_toasts := lvd_toasts w @ [(case err of ErrorValue m \<Rightarrow> m | NonError \<Rightarrow> js ''Failed.'', error)]\<rparr>
   \<and> LocationsVillagesPage_bulkUploadMutation_onError err w
     = w\<lparr>lvd_toasts := lvd_toasts w @ [(case err of ErrorValue m \<Rightarrow> m | NonError \<Rightarrow> js ''Failed.'', error)]\<rparr>
   \<and> LocationsVillagesPage_updatePincodeMutation_onError err w
     = w\<lparr>lvd_toasts := lvd_toasts w @ [(js ''Failed to update pincode.'', error)]\<rparr>"
proof -
  have mandals: "IkpMandalsPage_createMutation_settled (Inl err) st
       = st\<lparr>imp_toasts := imp_toasts st @ [(errorMessageOr err (js ''Failed to create mandal.''), error)]\<rparr>"
    "IkpMandalsPage_updateMutation_settled (Inl err) st
       = st\<lparr>imp_toasts := imp_toasts st @ [(errorMessageOr err (js ''Failed to update mandal.''), error)]\<rparr>"
    "IkpMandalsPage_deactivateMutation_settled (Inl err) st
       = st\<lparr>imp_toasts := imp_toasts st @ [(errorMessageOr err (js ''Failed to deactivate mandal.''), error)]\<rparr>"
    by (simp_all add: IkpMandalsPage_createMutation_settled_def
        IkpMandalsPage_updateMutation_settled_def IkpMandalsPage_deactivateMutation_settled_def
        IkpMandalsPage_createMutation_onError_def IkpMandalsPage_updateMutation_onError_def
        IkpMandalsPage_deactivateMutation_onError_def IkpMandalsPage_showToast_def)
  have opens: "IkpMandalsPage_createDialog_open (st\<lparr>imp_toasts := ts\<rparr>) = IkpMandalsPage_createDialog_open st"
    "IkpMandalsPage_editDialog_open (st\<lparr>imp_toasts := ts\<rparr>) = IkpMandalsPage_editDialog_open st"
    "IkpMandalsPage_deactivateDialog_open (st\<lparr>imp_toasts := ts\<rparr>) = IkpMandalsPage_deactivateDialog_open st"
    for ts
    by (simp_all add: IkpMandalsPage_createDialog_open_def IkpMandalsPage_editDialog_open_def
        IkpMandalsPage_deactivateDialog_open_def)
  have ikp: "IkpPage_showToast msg error k = k\<lparr>ipd_toasts := ipd_toasts k @ [(msg, error)]\<rparr>" for msg
    by (simp add: IkpPage_showToast_def)
  have locm: "LocationsMandalsPage_showToast msg error l = l\<lparr>lmd_toasts := lmd_toasts l @ [(msg, error)]\<rparr>"
    for msg
    by (simp add: LocationsMandalsPage_showToast_def)
  have locv: "LocationsVillagesPage_showToast msg error w = w\<lparr>lvd_toasts := lvd_toasts w @ [(msg, error)]\<rparr>"
    for msg
    by (simp add: LocationsVillagesPage_showToast_def)
  show ?thesis
    unfolding mandals opens
      IkpDistrictsPage_createMutation_onError_def IkpDistrictsPage_updateMutation_onError_def
      IkpDistrictsPage_deactivateMutation_onError_def IkpVillagesPage_createMutation_onError_def
      IkpVillagesPage_updateMutation_onError_def IkpVillagesPage_deactivateMutation_onError_def
      IkpCentersPage_createMutation_onError_def IkpCentersPage_updateMutation_onError_def
      IkpCentersPage_deactivateMutation_onError_def
      LocationsMandalsPage_createMutation_onError_def LocationsMandalsPage_updateMutation_onError_def
      LocationsMandalsPage_deactivateMutation_onError_def LocationsMandalsPage_deleteMutation_onError_def
      LocationsMandalsPage_bulkUploadMutation_onError_def
      LocationsVillagesPage_createMutation_onError_def LocationsVillagesPage_updateMutation_onError_def
      LocationsVillagesPage_updatePincodeMutation_onError_def
      LocationsVillagesPage_deactivateMutation_onError_def LocationsVillagesPage_deleteMutation_onError_def
      LocationsVillagesPage_bulkUploadMutation_onError_def ikp locm locv errorMessageOr_def
    by simp
qed

theorem C4_failed_mutation_witness:
  "imp_toasts (IkpMandalsPage_updateMutation_settled (Inl (ErrorValue (js ''Name already exists'')))
      (IkpMandalsPage_initial\<lparr>imp_editing :=
         Some \<lparr>ikm_id = js ''m1'', ikm_districtId = js ''d1'', ikm_name = js ''A'', ikm_isActive = True\<rparr>\<rparr>))
     = [(js ''Name already exists'', error)]
   \<and> IkpMandalsPage_editDialog_open
       (IkpMandalsPage_updateMutation_settled (Inl (ErrorValue (js ''Name already exists'')))
         (IkpMandalsPage_initial\<lparr>imp_editing :=
           Some \<lparr>ikm_id = js ''m1'', ikm_districtId = js ''d1'', ikm_name = js ''A'', ikm_isActive = True\<rparr>\<rparr>))
   \<and> lvd_toasts (LocationsVillagesPage_updatePincodeMutation_onError
         (ErrorValue (js ''Name already exists''))
         \<lparr>lvd_createOpen = False, lvd_bulkOpen = False, lvd_editing = None :: jsstring option,
          lvd_deactivateTarget = None, lvd_deleteTarget = None, lvd_toasts = [], lvd_invalidated = []\<rparr>)
     = [(js ''Failed to update pincode.'', error)]"
  using C4_failed_mutation [where err = "ErrorValue (js ''Name already exists'')"
      and st = "IkpMandalsPage_initial\<lparr>imp_editing :=
         Some \<lparr>ikm_id = js ''m1'', ikm_districtId = js ''d1'', ikm_name = js ''A'', ikm_isActive = True\<rparr>\<rparr>"
      and l = "\<lparr>lmd_createOpen = False, lmd_bulkOpen = False, lmd_editing = None,
         lmd_deactivateTarget = None, lmd_deleteTarget = None, lmd_toasts = [], lmd_invalidated = []\<rparr>"
      and k = "\<lparr>ipd_createOpen = True, ipd_editing = None :: jsstring option,
         ipd_deactivateTarget = None, ipd_toasts = [], ipd_invalidated = []\<rparr>"
      and w = "\<lparr>lvd_createOpen = False, lvd_bulkOpen = False, lvd_editing = None :: jsstring option,
         lvd_deactivateTarget = None, lvd_deleteTarget = None, lvd_toasts = [], lvd_invalidated = []\<rparr>"]
  by (simp add: IkpMandalsPage_initial_def IkpMandalsPage_editDialog_open_def
      LocationsVillagesPage_updatePincodeMutation_onError_def LocationsVillagesPage_showToast_def)

theorem C4_failed_deactivate_counterexample:
  "IkpMandalsPage_deactivateDialog_open
     (IkpMandalsPage_initial\<lparr>imp_deactivateTarget :=
        Some \<lparr>ikm_id = js ''m1'', ikm_districtId = js ''d1'', ikm_name = js ''A'', ikm_isActive = True\<rparr>\<rparr>)
   \<and> snd (IkpMandalsPage_deactivate_onClick
       (IkpMandalsPage_initial\<lparr>imp_deactivateTarget :=
          Some \<lparr>ikm_id = js ''m1'', ikm_districtId = js ''d1'', ikm_name = js ''A'', ikm_isActive = True\<rparr>\<rparr>))
     = Some (js ''m1'')
   \<and> IkpMandalsPage_deactivateDialog_open
       (IkpMandalsPage_deactivateMutation_settled (Inl NonError)
         (fst (IkpMandalsPage_deactivate_onClick
           (IkpMandalsPage_initial\<lparr>imp_deactivateTarget :=
             Some \<lparr>ikm_id = js ''m1'', ikm_districtId = js ''d1'', ikm_name = js ''A'', ikm_isActive = True\<rparr>\<rparr>))))
   \<and> imp_deactivateTarget
       (IkpMandalsPage_deactivateMutation_settled (Inl NonError)
         (fst (IkpMandalsPage_deactivate_onClick
           (IkpMandalsPage_initial\<lparr>imp_deactivateTarget :=
             Some \<lparr>ikm_id = js ''m1'', ikm_districtId = js ''d1'', ikm_name = js ''A'', ikm_isActive = True\<rparr>\<rparr>))))
     = Some \<lparr>ikm_id = js ''m1'', ikm_districtId = js ''d1'', ikm_name = js ''A'', ikm_isActive = True\<rparr>"
  by (simp add: IkpMandalsPage_deactivateMutation_settled_def
      IkpMandalsPage_deactivateMutation_onError_def IkpMandalsPage_showToast_def
      IkpMandalsPage_deactivateDialog_open_def IkpMandalsPage_initial_def
      IkpMandalsPage_deactivate_onClick_def)

section \<open>The submit button\<close>

text \<open>
  Claim C5.  In a dialog whose ancestor selector is locked (\<open>disableDistrict\<close> in
  \<open>MandalDialog\<close>, \<open>disableMandal\<close> in \<open>VillageDialog\<close>) the ancestor keeps its loaded value,
  and the submit button is disabled as long as name and active flag both equal the loaded
  snapshot; once one of them differs, the form is valid and no save is in flight, the
  button is enabled.  \<open>IkpCenterDialog\<close> does the same in edit mode (a title starting
  with \<open>Edit\<close>), over all its fields.
\<close>

theorem C5_locked_edit_needs_dirty:
  assumes "imf_districtId vals = imf_districtId initialValues"
    and "ivf_mandalId vvals = ivf_mandalId vinitial"
    and "startsWith title (js ''Edit'')"
  shows "(imf_name vals = imf_name initialValues \<and> imf_isActive vals = imf_isActive initialValues
            \<longrightarrow> MandalDialog_submit isSaving (Some True) initialValues vals)
       \<and> ((imf_name vals \<noteq> imf_name initialValues \<or> imf_isActive vals \<noteq> imf_isActive initialValues)
            \<and> IkpMandalsPage_mandalSchema vals \<and> \<not> isSaving
            \<longrightarrow> \<not> MandalDialog_submit isSaving (Some True) initialValues vals)
       \<and> (ivf_name vvals = ivf_name vinitial \<and> ivf_isActive vvals = ivf_isActive vinitial
            \<longrightarrow> VillageDialog_submit isSaving (Some True) vinitial vvals)
       \<and> ((ivf_name vvals \<noteq> ivf_name vinitial \<or> ivf_isActive vvals \<noteq> ivf_isActive vinitial)
            \<and> IkpVillagesPage_villageSchema vvals \<and> \<not> isSaving
            \<longrightarrow> \<not> VillageDialog_submit isSaving (Some True) vinitial vvals)
       \<and> (cvals = cinitial \<longrightarrow> IkpCenterDialog_submit isSaving title cinitial cvals)
       \<and> (cvals \<noteq> cinitial \<and> ikpCenterSchema cvals \<and> \<not> isSaving
            \<longrightarrow> \<not> IkpCenterDialog_submit isSaving title cinitial cvals)"
proof -
  have m: "vals = initialValues
           \<longleftrightarrow> imf_name vals = imf_name initialValues \<and> imf_isActive vals = imf_isActive initialValues"
    using assms(1) by (cases vals, cases initialValues) auto
  have v: "vvals = vinitial
           \<longleftrightarrow> ivf_name vvals = ivf_name vinitial \<and> ivf_isActive vvals = ivf_isActive vinitial"
    using assms(2) by (cases vvals, cases vinitial) auto
  have 1: "MandalDialog_submit isSaving (Some True) initialValues vals
           \<longleftrightarrow> isSaving \<or> \<not> IkpMandalsPage_mandalSchema vals \<or> vals = initialValues"
    by (simp add: MandalDialog_submit_def MandalDialog_submit_disabled_def isDirty_def)
  have 2: "VillageDialog_submit isSaving (Some True) vinitial vvals
           \<longleftrightarrow> isSaving \<or> \<not> IkpVillagesPage_villageSchema vvals \<or> vvals = vinitial"
    by (simp add: VillageDialog_submit_def VillageDialog_submit_disabled_def isDirty_def)
  have 3: "IkpCenterDialog_submit isSaving title cinitial cvals
           \<longleftrightarrow> isSaving \<or> \<not> ikpCenterSchema cvals \<or> cvals = cinitial"
    using assms(3)
    by (simp add: IkpCenterDialog_submit_def IkpCenterDialog_submit_disabled_def isDirty_def)
  show ?thesis
    unfolding 1 2 3 using m v by blast
qed

theorem C5_locked_edit_witness:
  "imf_districtId \<lparr>imf_districtId = js ''d1'', imf_name = js ''New'', imf_isActive = True\<rparr>
     = imf_districtId \<lparr>imf_districtId = js ''d1'', imf_name = js ''Old'', imf_isActive = True\<rparr>
   \<and> ivf_mandalId \<lparr>ivf_mandalId = js ''m1'', ivf_name = js ''Old'', ivf_isActive = False\<rparr>
     = ivf_mandalId \<lparr>ivf_mandalId = js ''m1'', ivf_name = js ''Old'', ivf_isActive = True\<rparr>
   \<and> startsWith (js ''Edit IKP center'') (js ''Edit'')
   \<and> MandalDialog_submit False (Some True)
        \<lparr>imf_districtId = js ''d1'', imf_name = js ''Old'', imf_isActive = True\<rparr>
        \<lparr>imf_districtId = js ''d1'', imf_name = js ''Old'', imf_isActive = True\<rparr>
   \<and> \<not> MandalDialog_submit False (Some True)
        \<lparr>imf_districtId = js ''d1'', imf_name = js ''Old'', imf_isActive = True\<rparr>
        \<lparr>imf_districtId = js ''d1'', imf_name = js ''New'', imf_isActive = True\<rparr>
   \<and> \<not> VillageDialog_submit False (Some True)
        \<lparr>ivf_mandalId = js ''m1'', ivf_name = js ''Old'', ivf_isActive = True\<rparr>
        \<lparr>ivf_mandalId = js ''m1'', ivf_name = js ''Old'', ivf_isActive = False\<rparr>"
proof -
  have a: "imf_districtId \<lparr>imf_districtId = js ''d1'', imf_name = js ''New'', imf_isActive = True\<rparr>
     = imf_districtId \<lparr>imf_districtId = js ''d1'', imf_name = js ''Old'', imf_isActive = True\<rparr>"
    by simp
  have b: "ivf_mandalId \<lparr>ivf_mandalId = js ''m1'', ivf_name = js ''Old'', ivf_isActive = False\<rparr>
     = ivf_mandalId \<lparr>ivf_mandalId = js ''m1'', ivf_name = js ''Old'', ivf_isActive = True\<rparr>"
    by simp
  have c: "startsWith (js ''Edit IKP center'') (js ''Edit'')"
    by (simp add: startsWith_def js_def)
  have same: "imf_districtId \<lparr>imf_districtId = js ''d1'', imf_name = js ''Old'', imf_isActive = True\<rparr>
     = imf_districtId \<lparr>imf_districtId = js ''d1'', imf_name = js ''Old'', imf_isActive = True\<rparr>"
    by simp
  show ?thesis
    using a b c
      C5_locked_edit_needs_dirty [OF a b c, where isSaving = False
        and cvals = "\<lparr>ic_stateId = js ''s'', ic_districtId = js ''d'', ic_mandalId = js ''m'',
           ic_villageId = js ''v'', ic_name = js ''n'', ic_notes = None, ic_isActive = True\<rparr>"
        and cinitial = "\<lparr>ic_stateId = js ''s'', ic_districtId = js ''d'', ic_mandalId = js ''m'',
           ic_villageId = js ''v'', ic_name = js ''n'', ic_notes = None, ic_isActive = True\<rparr>"]
      C5_locked_edit_needs_dirty [OF same b c, where isSaving = False
        and cvals = "\<lparr>ic_stateId = js ''s'', ic_districtId = js ''d'', ic_mandalId = js ''m'',
           ic_villageId = js ''v'', ic_name = js ''n'', ic_notes = None, ic_isActive = True\<rparr>"
        and cinitial = "\<lparr>ic_stateId = js ''s'', ic_districtId = js ''d'', ic_mandalId = js ''m'',
           ic_villageId = js ''v'', ic_name = js ''n'', ic_notes = None, ic_isActive = True\<rparr>"]
    by (simp add: js_def IkpMandalsPage_mandalSchema_def IkpVillagesPage_villageSchema_def)
qed

lemma LocationsVillageDialog_state_picked_values:
  "lvf_values (LocationsVillageDialog_state_picked v f)
     = LocationsVillageDialog_stateId_onValueChange v (lvf_values f)"
  by (simp add: LocationsVillageDialog_state_picked_def LocationsVillageDialog_setValue_def
      LocationsVillageDialog_field_onChange_def LocationsVillageDialog_updateValid_def
      LocationsVillageDialog_stateId_onValueChange_def)

lemma LocationsVillageDialog_state_picked_isValid:
  "lvf_isValid (LocationsVillageDialog_state_picked v f)
     = LocationsVillageDialog_villageSchema ((lvf_values f)\<lparr>lv_stateId := v\<rparr>)"
  by (simp add: LocationsVillageDialog_state_picked_def LocationsVillageDialog_setValue_def
      LocationsVillageDialog_field_onChange_def LocationsVillageDialog_updateValid_def)

lemma LocationsVillageDialog_submit_fresh:
  "lvf_isValid f = LocationsVillageDialog_villageSchema (lvf_values f) \<Longrightarrow>
     LocationsVillageDialog_submit isSaving f
       \<longleftrightarrow> isSaving \<or> lv_stateId (lvf_values f) = [] \<or> lv_districtId (lvf_values f) = []
           \<or> lv_mandalId (lvf_values f) = [] \<or> lv_name (lvf_values f) = []"
proof -
  have len: "\<And>xs :: jsstring. 1 \<le> length xs \<longleftrightarrow> xs \<noteq> []"
    by (simp add: Suc_le_eq)
  assume "lvf_isValid f = LocationsVillageDialog_villageSchema (lvf_values f)"
  then show ?thesis
    unfolding LocationsVillageDialog_submit_def LocationsVillageDialog_submit_disabled_def
      LocationsVillageDialog_villageSchema_def len
    by blast
qed

lemma district_dialogs_submit_needs_valid_form:
  "(isSaving \<or> \<not> LocationsDistrictDialog_districtSchema d \<longrightarrow> LocationsDistrictDialog_submit isSaving d)
   \<and> (ld_stateId d = [] \<or> ld_name d = [] \<longrightarrow> LocationsDistrictDialog_submit isSaving d)
   \<and> (\<not> LocationsDistrictDialog_submit isSaving d \<longrightarrow>
        ld_stateId d \<noteq> [] \<and> ld_name d \<noteq> [] \<and> LocationsDistrictDialog_districtSchema d \<and> \<not> isSaving)
   \<and> (isSaving \<or> \<not> IkpDistrictsPage_districtSchema vals
        \<longrightarrow> DistrictDialog_submit isSaving disableState initialValues vals)
   \<and> (idf_stateId vals = [] \<or> idf_name vals = [] \<or> 100 < length (idf_name vals)
        \<longrightarrow> DistrictDialog_submit isSaving disableState initialValues vals)
   \<and> (\<not> DistrictDialog_submit isSaving disableState initialValues vals \<longrightarrow>
        idf_stateId vals \<noteq> [] \<and> idf_name vals \<noteq> [] \<and> length (idf_name vals) \<le> 100
        \<and> IkpDistrictsPage_districtSchema vals \<and> \<not> isSaving)"
  by (auto simp: LocationsDistrictDialog_submit_def
      LocationsDistrictDialog_submit_disabled_def LocationsDistrictDialog_districtSchema_def
      DistrictDialog_submit_def DistrictDialog_submit_disabled_def
      IkpDistrictsPage_districtSchema_def)

text \<open>
  Claim C6 asks for a disabled submit button whenever the schema rejects the values.
  \<open>LocationsVillageDialog\<close>, opened on a complete village, has the button enabled.
  Picking another state validates the form while the old district and mandal are still
  in it, and only then clears them: the form now holds an empty district and an empty
  mandal, the schema rejects it, and the button is still enabled.
\<close>

theorem C6_save_enabled_on_cleared_levels:
  "\<not> LocationsVillageDialog_submit False
       (LocationsVillageDialog_reset
         \<lparr>lv_stateId = js ''s1'', lv_districtId = js ''d1'', lv_mandalId = js ''m1'',
          lv_name = js ''Kota'', lv_code = None, lv_pincode = None, lv_isActive = True\<rparr>)
   \<and> lvf_values (LocationsVillageDialog_state_picked (js ''s2'')
       (LocationsVillageDialog_reset
         \<lparr>lv_stateId = js ''s1'', lv_districtId = js ''d1'', lv_mandalId = js ''m1'',
          lv_name = js ''Kota'', lv_code = None, lv_pincode = None, lv_isActive = True\<rparr>))
     = \<lparr>lv_stateId = js ''s2'', lv_districtId = [], lv_mandalId = [],
        lv_name = js ''Kota'', lv_code = None, lv_pincode = None, lv_isActive = True\<rparr>
   \<and> \<not> LocationsVillageDialog_villageSchema
       (lvf_values (LocationsVillageDialog_state_picked (js ''s2'')
         (LocationsVillageDialog_reset
           \<lparr>lv_stateId = js ''s1'', lv_districtId = js ''d1'', lv_mandalId = js ''m1'',
            lv_name = js ''Kota'', lv_code = None, lv_pincode = None, lv_isActive = True\<rparr>)))
   \<and> \<not> LocationsVillageDialog_submit False
       (LocationsVillageDialog_state_picked (js ''s2'')
         (LocationsVillageDialog_reset
           \<lparr>lv_stateId = js ''s1'', lv_districtId = js ''d1'', lv_mandalId = js ''m1'',
            lv_name = js ''Kota'', lv_code = None, lv_pincode = None, lv_isActive = True\<rparr>))"
  by (simp add: LocationsVillageDialog_submit_def LocationsVillageDialog_submit_disabled_def
      LocationsVillageDialog_state_picked_def LocationsVillageDialog_setValue_def
      LocationsVillageDialog_field_onChange_def LocationsVillageDialog_updateValid_def
      LocationsVillageDialog_reset_def LocationsVillageDialog_villageSchema_def js_def)

section \<open>Bulk upload\<close>

text \<open>
  Claim C7.  The Upload button of \<open>BulkUploadMandalsDialog\<close> and of
  \<open>BulkUploadVillagesDialog\<close> is enabled only if the parent id is non-empty and the text
  has a character that is not white space, and a click then sends exactly the parent id
  and the text of the dialog, unchanged, as the two arguments of the request.
\<close>

theorem C7_bulk_upload:
  "(\<not> BulkUploadMandalsDialog_upload_disabled m isUploading \<longrightarrow>
       bum_districtId m \<noteq> [] \<and> (\<exists>c \<in> set (bum_items m). \<not> isWhiteSpace c))
   \<and> (bum_districtId m = [] \<or> (\<forall>c \<in> set (bum_items m). isWhiteSpace c)
       \<longrightarrow> BulkUploadMandalsDialog_upload_disabled m isUploading)
   \<and> (\<not> BulkUploadMandalsDialog_upload_disabled m isUploading \<longrightarrow>
       BulkUploadMandalsDialog_upload_onClick m isUploading
         = Some (BulkUploadMandals (bum_districtId m) (bum_items m)))
   \<and> (\<not> BulkUploadVillagesDialog_upload_disabled v isUploading \<longrightarrow>
       buv_mandalId v \<noteq> [] \<and> (\<exists>c \<in> set (buv_items v). \<not> isWhiteSpace c))
   \<and> (buv_mandalId v = [] \<or> (\<forall>c \<in> set (buv_items v). isWhiteSpace c)
       \<longrightarrow> BulkUploadVillagesDialog_upload_disabled v isUploading)
   \<and> (\<not> BulkUploadVillagesDialog_upload_disabled v isUploading \<longrightarrow>
       BulkUploadVillagesDialog_upload_onClick v isUploading
         = Some (BulkUploadVillages (buv_mandalId v) (buv_items v)))"
proof -
  have m: "BulkUploadMandalsDialog_upload_disabled m isUploading
           \<longleftrightarrow> bum_districtId m = [] \<or> (\<forall>c \<in> set (bum_items m). isWhiteSpace c) \<or> isUploading"
    by (simp add: BulkUploadMandalsDialog_upload_disabled_def truthy_def trim_empty_iff)
  have v: "BulkUploadVillagesDialog_upload_disabled v isUploading
           \<longleftrightarrow> buv_mandalId v = [] \<or> (\<forall>c \<in> set (buv_items v). isWhiteSpace c) \<or> isUploading"
    by (simp add: BulkUploadVillagesDialog_upload_disabled_def truthy_def trim_empty_iff)
  have mc: "\<not> BulkUploadMandalsDialog_upload_disabled m isUploading \<Longrightarrow>
            BulkUploadMandalsDialog_upload_onClick m isUploading
              = Some (BulkUploadMandals (bum_districtId m) (bum_items m))"
    by (simp add: BulkUploadMandalsDialog_upload_onClick_def LocationsMandalsPage_onUpload_def
        LocationsMandalsPage_bulkUploadMutation_mutationFn_def)
  have vc: "\<not> BulkUploadVillagesDialog_upload_disabled v isUploading \<Longrightarrow>
            BulkUploadVillagesDialog_upload_onClick v isUploading
              = Some (BulkUploadVillages (buv_mandalId v) (buv_items v))"
    by (simp add: BulkUploadVillagesDialog_upload_onClick_def LocationsVillagesPage_onUpload_def
        LocationsVillagesPage_bulkUploadMutation_mutationFn_def)
  show ?thesis
    using m v mc vc by blast
qed

theorem C7_bulk_upload_witness:
  "\<not> BulkUploadMandalsDialog_upload_disabled
        \<lparr>bum_stateId = js ''s1'', bum_districtId = js ''d1'', bum_items = js '' A, B ,A ''\<rparr> False
   \<and> BulkUploadMandalsDialog_upload_onClick
        \<lparr>bum_stateId = js ''s1'', bum_districtId = js ''d1'', bum_items = js '' A, B ,A ''\<rparr> False
      = Some (BulkUploadMandals (js ''d1'') (js '' A, B ,A ''))
   \<and> BulkUploadVillagesDialog_upload_disabled
        \<lparr>buv_stateId = js ''s1'', buv_districtId = js ''d1'', buv_mandalId = js ''m1'',
         buv_items = js ''  ''\<rparr> False"
  using C7_bulk_upload [where isUploading = False
      and m = "\<lparr>bum_stateId = js ''s1'', bum_districtId = js ''d1'', bum_items = js '' A, B ,A ''\<rparr>"
      and v = "\<lparr>buv_stateId = js ''s1'', buv_districtId = js ''d1'', buv_mandalId = js ''m1'',
         buv_items = js ''  ''\<rparr>"]
  by (simp add: js_def truthy_def trim_def isWhiteSpace_def
      BulkUploadMandalsDialog_upload_disabled_def BulkUploadVillagesDialog_upload_disabled_def)

section \<open>Update of a village on the IKP Villages page\<close>

lemma IkpVillagesPage_create_transmits_mandal:
  "transmitted (IkpVillagesPage_create_onSave data) = [''mandalId'', ''name'', ''isActive'']"
  by (simp add: IkpVillagesPage_create_onSave_def)

text \<open>
  Claim C10.  Saving the edit dialog of \<open>IkpVillagesPage\<close> sends, for the row being
  edited, a payload with the two properties \<open>name\<close> and \<open>isActive\<close> and no \<open>mandalId\<close>;
  the request is the same whatever mandal id the form holds.
\<close>

theorem C10_update_payload_has_no_mandal:
  "IkpVillagesPage_edit_onSave (Some row) data
     = Some (UpdateAdminIkpVillage (ikv_id row)
              [(''name'', JString (ivf_name data)), (''isActive'', JBool (ivf_isActive data))])
   \<and> map_option transmitted (IkpVillagesPage_edit_onSave (Some row) data)
     = Some [''name'', ''isActive'']
   \<and> IkpVillagesPage_edit_onSave (Some row) (data\<lparr>ivf_mandalId := otherMandal\<rparr>)
     = IkpVillagesPage_edit_onSave (Some row) data
   \<and> IkpVillagesPage_edit_onSave None data = None"
  by (simp add: IkpVillagesPage_edit_onSave_def IkpVillagesPage_updateMutation_mutationFn_def)

theorem C10_update_payload_witness:
  "IkpVillagesPage_edit_onSave
      (Some \<lparr>ikv_id = js ''v1'', ikv_mandalId = js ''m1'', ikv_name = js ''Old'', ikv_isActive = True\<rparr>)
      \<lparr>ivf_mandalId = js ''m2'', ivf_name = js ''New'', ivf_isActive = False\<rparr>
     = Some (UpdateAdminIkpVillage (js ''v1'')
              [(''name'', JString (js ''New'')), (''isActive'', JBool False)])
   \<and> ''mandalId'' \<notin> set (transmitted (UpdateAdminIkpVillage (js ''v1'')
              [(''name'', JString (js ''New'')), (''isActive'', JBool False)]))"
  using C10_update_payload_has_no_mandal [where
      row = "\<lparr>ikv_id = js ''v1'', ikv_mandalId = js ''m1'', ikv_name = js ''Old'', ikv_isActive = True\<rparr>"
      and data = "\<lparr>ivf_mandalId = js ''m2'', ivf_name = js ''New'', ivf_isActive = False\<rparr>"
      and otherMandal = "js ''m1''"]
  by simp

section \<open>Deselecting a filter\<close>

text \<open>
  Claim C8.  On \<open>LocationsMandalsPage\<close> and \<open>LocationsVillagesPage\<close>, picking in a filter
  the value it already holds leaves that filter empty; so picking the same value twice in
  a filter that did not hold it sets it and then clears it again.  The state select of
  \<open>IkpMandalsPage\<close> does the same in its own handler.
\<close>

theorem C8_pick_current_value_clears:
  "(lmp_stateFilter m = opt \<longrightarrow> lmp_stateFilter (LocationsMandalsPage_pick_state opt m) = [])
   \<and> (lmp_stateFilter m \<noteq> opt \<longrightarrow>
        lmp_stateFilter (LocationsMandalsPage_pick_state opt m) = opt
      \<and> lmp_stateFilter (LocationsMandalsPage_pick_state opt (LocationsMandalsPage_pick_state opt m)) = [])
   \<and> (lmp_districtFilter m = opt \<longrightarrow> lmp_districtFilter (LocationsMandalsPage_pick_district opt m) = [])
   \<and> (lmp_districtFilter m \<noteq> opt \<longrightarrow>
        lmp_districtFilter (LocationsMandalsPage_pick_district opt
          (LocationsMandalsPage_pick_district opt m)) = [])
   \<and> (lvp_stateFilter v = opt \<longrightarrow> lvp_stateFilter (LocationsVillagesPage_pick_state opt v) = [])
   \<and> (lvp_stateFilter v \<noteq> opt \<longrightarrow>
        lvp_stateFilter (LocationsVillagesPage_pick_state opt (LocationsVillagesPage_pick_state opt v)) = [])
   \<and> (lvp_districtFilter v = opt \<longrightarrow> lvp_districtFilter (LocationsVillagesPage_pick_district opt v) = [])
   \<and> (lvp_districtFilter v \<noteq> opt \<longrightarrow>
        lvp_districtFilter (LocationsVillagesPage_pick_district opt
          (LocationsVillagesPage_pick_district opt v)) = [])
   \<and> (lvp_mandalFilter v = opt \<longrightarrow> lvp_mandalFilter (LocationsVillagesPage_pick_mandal opt v) = [])
   \<and> (lvp_mandalFilter v \<noteq> opt \<longrightarrow>
        lvp_mandalFilter (LocationsVillagesPage_pick_mandal opt
          (LocationsVillagesPage_pick_mandal opt v)) = [])
   \<and> (imp_stateId st = opt \<longrightarrow> imp_stateId (IkpMandalsPage_state_onValueChange (Some opt) st) = [])"
  by (simp add: LocationsMandalsPage_pick_state_def LocationsMandalsPage_pick_district_def
      LocationsVillagesPage_pick_state_def LocationsVillagesPage_pick_district_def
      LocationsVillagesPage_pick_mandal_def GroupedCombobox_onSelect_def
      LocationsMandalsPage_stateFilter_onValueChange_def
      LocationsMandalsPage_districtFilter_onValueChange_def
      LocationsVillagesPage_stateFilter_onValueChange_def
      LocationsVillagesPage_districtFilter_onValueChange_def
      LocationsVillagesPage_mandalFilter_onValueChange_def
      IkpMandalsPage_state_onValueChange_def)

theorem C8_pick_current_value_witness:
  "lmp_stateFilter \<lparr>lmp_stateFilter = js ''s1'', lmp_districtFilter = js ''d1''\<rparr> = js ''s1''
   \<and> lmp_stateFilter (LocationsMandalsPage_pick_state (js ''s1'')
        \<lparr>lmp_stateFilter = js ''s1'', lmp_districtFilter = js ''d1''\<rparr>) = []
   \<and> lvp_mandalFilter \<lparr>lvp_stateFilter = js ''s1'', lvp_districtFilter = js ''d1'', lvp_mandalFilter = []\<rparr>
        \<noteq> js ''s1''
   \<and> lvp_mandalFilter (LocationsVillagesPage_pick_mandal (js ''s1'')
        (LocationsVillagesPage_pick_mandal (js ''s1'')
          \<lparr>lvp_stateFilter = js ''s1'', lvp_districtFilter = js ''d1'', lvp_mandalFilter = []\<rparr>)) = []
   \<and> imp_stateId (IkpMandalsPage_state_onValueChange (Some (js ''s1''))
        (IkpMandalsPage_initial\<lparr>imp_stateId := js ''s1''\<rparr>)) = []"
  using C8_pick_current_value_clears [where opt = "js ''s1''"
      and m = "\<lparr>lmp_stateFilter = js ''s1'', lmp_districtFilter = js ''d1''\<rparr>"
      and v = "\<lparr>lvp_stateFilter = js ''s1'', lvp_districtFilter = js ''d1'', lvp_mandalFilter = []\<rparr>"
      and st = "IkpMandalsPage_initial\<lparr>imp_stateId := js ''s1''\<rparr>"]
  by (simp add: js_def IkpMandalsPage_initial_def)

section \<open>Generated codes\<close>

lemma generatedCode_length:
  "length (generatedCode prefix r) = length prefix + min 6 (length r - 2)"
  by (auto simp: generatedCode_def toUpperCase_def substring_def Let_def min_def max_def)

lemma create_onSave_supplied_code:
  "\<not> falsy_code (lm_code d) \<Longrightarrow> LocationsMandalsPage_create_onSave r d = CreateAdminMandal d"
  "\<not> falsy_code (lv_code w) \<Longrightarrow> LocationsVillagesPage_create_onSave r w = CreateAdminVillage w"
  by (simp_all add: LocationsMandalsPage_create_onSave_def LocationsVillagesPage_create_onSave_def)

lemma create_onSave_blank_code:
  "falsy_code (lm_code d) \<Longrightarrow>
     LocationsMandalsPage_create_onSave r d
       = CreateAdminMandal (d\<lparr>lm_code := Some (generatedCode (js ''M'') r)\<rparr>)"
  "falsy_code (lv_code w) \<Longrightarrow>
     LocationsVillagesPage_create_onSave r w
       = CreateAdminVillage (w\<lparr>lv_code := Some (generatedCode (js ''V'') r)\<rparr>)"
  by (simp_all add: LocationsMandalsPage_create_onSave_def LocationsVillagesPage_create_onSave_def)

text \<open>
  Claim C9 asks for a generated code of seven characters, the prefix and six base-36
  digits.  When \<open>Math.random()\<close> returns \<open>0.5\<close>, its base-36 string is \<open>0.i\<close>, and the
  code generated for a blank Code field is \<open>VI\<close> for a village and \<open>MI\<close> for a mandal:
  two characters.
\<close>

theorem C9_generated_code_at_one_half:
  "LocationsVillagesPage_create_onSave (js ''0.i'')
      \<lparr>lv_stateId = js ''s1'', lv_districtId = js ''d1'', lv_mandalId = js ''m1'',
       lv_name = js ''Kota'', lv_code = Some [], lv_pincode = None, lv_isActive = True\<rparr>
     = CreateAdminVillage
         \<lparr>lv_stateId = js ''s1'', lv_districtId = js ''d1'', lv_mandalId = js ''m1'',
          lv_name = js ''Kota'', lv_code = Some (js ''VI''), lv_pincode = None, lv_isActive = True\<rparr>
   \<and> LocationsMandalsPage_create_onSave (js ''0.i'')
      \<lparr>lm_stateId = js ''s1'', lm_districtId = js ''d1'', lm_name = js ''Kota'',
       lm_code = None, lm_isActive = True\<rparr>
     = CreateAdminMandal
         \<lparr>lm_stateId = js ''s1'', lm_districtId = js ''d1'', lm_name = js ''Kota'',
          lm_code = Some (js ''MI''), lm_isActive = True\<rparr>
   \<and> length (generatedCode (js ''V'') (js ''0.i'')) = 2"
  by (simp add: LocationsVillagesPage_create_onSave_def LocationsMandalsPage_create_onSave_def
      falsy_code_def truthy_def generatedCode_def toUpperCase_def substring_def js_def)

end
